theory Spec2Isabelle
  imports Complex_Main
begin

section \<open>Data model\<close>

text \<open>
  The pipeline of \<^verbatim>\<open>src/mapping.cpp\<close> and \<^verbatim>\<open>src/features.cpp\<close>. Scalars
  (\<^verbatim>\<open>float\<close>, \<^verbatim>\<open>double\<close>) are carried by \<^typ>\<open>real\<close>; the one rounded operation
  that a statement below depends on, the single-precision \<^verbatim>\<open>+=\<close> of
  \<^verbatim>\<open>remove_degenerate\<close>, is kept as the parameter \<open>float_add\<close>. \<^verbatim>\<open>size_t\<close>
  counters never exceed 20 and are \<^typ>\<open>nat\<close>. The 4x4 pose matrix
  (\<^verbatim>\<open>Eigen::Matrix4d\<close>), the point type and the loop module are declared in headers
  that are not part of the sources at hand (\<^verbatim>\<open>comm.h\<close>, \<^verbatim>\<open>loop.h\<close>,
  \<^verbatim>\<open>residual.h\<close>, Eigen): they are the type parameters \<open>'m\<close>, \<open>'p\<close>, \<open>'l\<close>, and
  every operation on them that the code calls is a field of the record \<open>lib\<close> below.
\<close>

datatype error = AssertionFailed | OutOfBounds | NullDeref

text \<open>\<^verbatim>\<open>Transform\<close>: six scalars; the fields \<^verbatim>\<open>x, y, z, roll, pitch, yaw\<close>.\<close>

record Transform =
  t_x :: real
  t_y :: real
  t_z :: real
  t_roll :: real
  t_pitch :: real
  t_yaw :: real

text \<open>
  \<^verbatim>\<open>feature_objects\<close>: three cloud pointers, each of which may be null. A cloud is the
  list of its points.
\<close>

record 'p feature_objects =
  line_features :: "'p list option"
  plane_features :: "'p list option"
  non_features :: "'p list option"

record 'p feature_frame =
  velodyne_feature :: "'p feature_objects"
  livox_feature :: "'p feature_objects"

definition default_objects :: "'p feature_objects" where
  "default_objects = \<lparr>line_features = None, plane_features = None, non_features = None\<rparr>"

definition default_frame :: "'p feature_frame" where
  "default_frame = \<lparr>velodyne_feature = default_objects, livox_feature = default_objects\<rparr>"

text \<open>\<^verbatim>\<open>geometry_msgs::Pose\<close> and \<^verbatim>\<open>PoseStamped\<close> (the stamp is \<^verbatim>\<open>ros::Time\<close>).\<close>

record Pose =
  position :: "real \<times> real \<times> real"
  orientation :: "real \<times> real \<times> real \<times> real"

record PoseStamped =
  stamp :: nat
  pose :: Pose

text \<open>The linear system returned by the kernel \<^verbatim>\<open>Ab\<close>: \<^verbatim>\<open>N.top\<close>, \<^verbatim>\<open>N.A\<close>, \<^verbatim>\<open>N.b\<close>.\<close>

record normal =
  n_top :: nat
  n_A :: "nat \<Rightarrow> nat \<Rightarrow> real"
  n_b :: "nat \<Rightarrow> real"

text \<open>
  The operations of the absent headers and of Eigen, as parameters:
  matrix identity, product, inverse, coefficient access and the rotation's quaternion;
  \<^verbatim>\<open>to_eigen\<close>; the effect of \<^verbatim>\<open>matrix * p\<close> written back into a point;
  \<^verbatim>\<open>concat\<close>; the kernel \<^verbatim>\<open>Ab\<close> (applied to the observed frame, the local map
  behind the two adapters, and the current estimate); \<^verbatim>\<open>eigenvalues()\<close> and
  \<^verbatim>\<open>householderQr().solve\<close> on 6x6 systems; \<^verbatim>\<open>p2\<close>; the addition of two
  \<^verbatim>\<open>float\<close> values with its rounding; the feature kernels
  \<^verbatim>\<open>feature_velodyne\<close>, \<^verbatim>\<open>feature_livox\<close> and \<^verbatim>\<open>pcl::transformPointCloud\<close>;
  and the loop module: \<^verbatim>\<open>loop.loop_detection\<close> (which returns the index and updates the
  module), \<^verbatim>\<open>loop.btr\<close>, \<^verbatim>\<open>loop.tr\<close> and the edge list \<^verbatim>\<open>loop.loop\<close>.
\<close>

record ('m, 'p, 'l) lib =
  m_identity :: 'm
  m_mul :: "'m \<Rightarrow> 'm \<Rightarrow> 'm"
  m_inverse :: "'m \<Rightarrow> 'm"
  m_coeff :: "'m \<Rightarrow> nat \<Rightarrow> nat \<Rightarrow> real"
  m_quaternion :: "'m \<Rightarrow> real \<times> real \<times> real \<times> real"
  to_eigen :: "Transform \<Rightarrow> 'm"
  transform_point :: "'m \<Rightarrow> 'p \<Rightarrow> 'p"
  concat_objects :: "'p feature_objects \<Rightarrow> 'p feature_objects \<Rightarrow> 'p feature_objects"
  Ab :: "'p feature_frame \<Rightarrow> 'p feature_frame \<Rightarrow> Transform \<Rightarrow> normal"
  eigenvalues :: "(nat \<Rightarrow> nat \<Rightarrow> real) \<Rightarrow> nat \<Rightarrow> complex"
  qr_solve :: "(nat \<Rightarrow> nat \<Rightarrow> real) \<Rightarrow> (nat \<Rightarrow> real) \<Rightarrow> nat \<Rightarrow> real"
  p2 :: "real \<Rightarrow> real"
  float_add :: "real \<Rightarrow> real \<Rightarrow> real"
  feature_velodyne :: "'p list \<Rightarrow> 'p feature_objects"
  feature_livox :: "'p list \<Rightarrow> 'p feature_objects"
  pcl_transform :: "'p list \<Rightarrow> 'm \<Rightarrow> 'p list"
  loop_run :: "'l \<Rightarrow> 'p list \<Rightarrow> 'p feature_objects \<Rightarrow> 'm \<Rightarrow> nat \<times> 'l"
  loop_btr :: "'l \<Rightarrow> nat \<Rightarrow> 'm"
  loop_tr :: "'l \<Rightarrow> nat \<Rightarrow> 'm"
  loop_edges :: "'l \<Rightarrow> (nat \<times> nat) list"

section \<open>The local map: a ring of 20 keyframes\<close>

definition previous_frame_count :: nat where
  "previous_frame_count = 20"

text \<open>
  \<^verbatim>\<open>struct local_map\<close>. Its member \<^verbatim>\<open>local_map\<close>, the cached fused map, is the field
  \<open>cached_map\<close>; the members \<^verbatim>\<open>set\<close>, \<^verbatim>\<open>empty\<close> and \<^verbatim>\<open>size\<close> are \<open>set_lm\<close>, \<open>empty_lm\<close>
  and \<open>size_lm\<close>.
\<close>

record ('m, 'p) local_map =
  prev_frames :: "'p feature_frame list"
  prev_frame_location :: "'m list"
  head :: nat
  counters :: nat
  cached_map :: "'p feature_frame"
  local_map_dirty :: bool

text \<open>
  The freshly constructed ring: \<^verbatim>\<open>head = previous_frame_count - 1\<close>, \<^verbatim>\<open>counters = 0\<close>,
  the cache dirty. The slot matrices are not initialised by the source; \<open>g\<close> stands for
  whatever they hold.
\<close>

definition new_local_map :: "'m \<Rightarrow> ('m, 'p) local_map" where
  "new_local_map g =
     \<lparr>prev_frames = replicate previous_frame_count default_frame,
      prev_frame_location = replicate previous_frame_count g,
      head = previous_frame_count - 1, counters = 0,
      cached_map = default_frame, local_map_dirty = True\<rparr>"

definition push :: "('m, 'p) local_map \<Rightarrow> 'p feature_frame \<Rightarrow> 'm \<Rightarrow> ('m, 'p) local_map" where
  "push lm frame transform =
     (let h = (head lm + 1) mod previous_frame_count;
          c = (if counters lm < previous_frame_count then counters lm + 1 else counters lm)
      in lm\<lparr>head := h, counters := c,
            prev_frames := (prev_frames lm)[h := frame],
            prev_frame_location := (prev_frame_location lm)[h := transform],
            local_map_dirty := True\<rparr>)"

definition empty_lm :: "('m, 'p) local_map \<Rightarrow> bool" where
  "empty_lm lm = (counters lm = 0)"

definition size_lm :: "('m, 'p) local_map \<Rightarrow> nat" where
  "size_lm lm = counters lm"

text \<open>\<^verbatim>\<open>tr()\<close>: the assertion and the array bound are branches of the model.\<close>

definition tr :: "('m, 'p) local_map \<Rightarrow> error + 'm" where
  "tr lm =
     (if \<not> counters lm > 0 then Inl AssertionFailed
      else if \<not> head lm < length (prev_frame_location lm) then Inl OutOfBounds
      else Inr (prev_frame_location lm ! head lm))"

text \<open>
  The slot that \<^verbatim>\<open>set(back_index, _)\<close> addresses (lines 200 to 204). Under the
  assertion \<^verbatim>\<open>back_index <= counters\<close> neither subtraction underflows.
\<close>

definition back_slot :: "('m, 'p) local_map \<Rightarrow> nat \<Rightarrow> nat" where
  "back_slot lm back_index =
     (if back_index \<le> head lm + 1 then head lm + 1 - back_index
      else counters lm + head lm + 1 - back_index)"

definition set_lm :: "('m, 'p) local_map \<Rightarrow> nat \<Rightarrow> 'm \<Rightarrow> error + ('m, 'p) local_map" where
  "set_lm lm back_index transform =
     (if \<not> back_index \<le> counters lm then Inl AssertionFailed
      else if \<not> back_slot lm back_index < length (prev_frame_location lm) then Inl OutOfBounds
      else Inr (lm\<lparr>prev_frame_location :=
                    (prev_frame_location lm)[back_slot lm back_index := transform]\<rparr>))"

text \<open>
  \<^verbatim>\<open>transform_cloud\<close> appends the transformed points of one cloud to a cloud of the
  result; the result's pointer is dereferenced, so a null one is an error.
\<close>

definition transform_cloud ::
  "('m, 'p, 'l) lib \<Rightarrow> 'p list option \<Rightarrow> 'p list option \<Rightarrow> 'm \<Rightarrow> error + 'p list option" where
  "transform_cloud L src dst matrix =
     (case src of
        None \<Rightarrow> Inr dst
      | Some pts \<Rightarrow>
          (case dst of
             None \<Rightarrow> Inl NullDeref
           | Some acc \<Rightarrow> Inr (Some (acc @ map (transform_point L matrix) pts))))"

text \<open>One round of the loop of \<^verbatim>\<open>update_local_map\<close> (slot \<open>i\<close>).\<close>

definition fuse_slot ::
  "('m, 'p, 'l) lib \<Rightarrow> ('m, 'p) local_map \<Rightarrow> 'm \<Rightarrow> nat \<Rightarrow> 'p feature_frame
     \<Rightarrow> error + 'p feature_frame" where
  "fuse_slot L lm transform i result =
     (if \<not> (i < length (prev_frames lm) \<and> i < length (prev_frame_location lm))
      then Inl OutOfBounds
      else
        let this_transform = m_mul L transform (prev_frame_location lm ! i);
            f = prev_frames lm ! i
        in case transform_cloud L (line_features (velodyne_feature f))
                  (line_features (velodyne_feature result)) this_transform of
             Inl e \<Rightarrow> Inl e
           | Inr vl \<Rightarrow>
        (case transform_cloud L (plane_features (velodyne_feature f))
                  (plane_features (velodyne_feature result)) this_transform of
             Inl e \<Rightarrow> Inl e
           | Inr vp \<Rightarrow>
        (case transform_cloud L (plane_features (livox_feature f))
                  (plane_features (livox_feature result)) this_transform of
             Inl e \<Rightarrow> Inl e
           | Inr lp \<Rightarrow>
        (case transform_cloud L (non_features (livox_feature f))
                  (non_features (livox_feature result)) this_transform of
             Inl e \<Rightarrow> Inl e
           | Inr lnon \<Rightarrow>
               Inr \<lparr>velodyne_feature =
                      (velodyne_feature result)\<lparr>line_features := vl, plane_features := vp\<rparr>,
                    livox_feature =
                      (livox_feature result)\<lparr>plane_features := lp, non_features := lnon\<rparr>\<rparr>))))"

fun fuse_slots ::
  "('m, 'p, 'l) lib \<Rightarrow> ('m, 'p) local_map \<Rightarrow> 'm \<Rightarrow> nat list \<Rightarrow> 'p feature_frame
     \<Rightarrow> error + 'p feature_frame" where
  "fuse_slots L lm transform [] result = Inr result"
| "fuse_slots L lm transform (i # is) result =
     (case fuse_slot L lm transform i result of
        Inl e \<Rightarrow> Inl e
      | Inr result' \<Rightarrow> fuse_slots L lm transform is result')"

definition update_local_map ::
  "('m, 'p, 'l) lib \<Rightarrow> ('m, 'p) local_map \<Rightarrow> error + 'p feature_frame" where
  "update_local_map L lm =
     (if \<not> counters lm > 0 then Inl AssertionFailed
      else if \<not> (head lm < length (prev_frames lm) \<and> head lm < length (prev_frame_location lm))
      then Inl OutOfBounds
      else
        let result = \<lparr>velodyne_feature =
                        concat_objects L default_objects (velodyne_feature (prev_frames lm ! head lm)),
                      livox_feature =
                        concat_objects L default_objects (livox_feature (prev_frames lm ! head lm))\<rparr>;
            transform = m_inverse L (prev_frame_location lm ! head lm)
        in fuse_slots L lm transform [0 ..< counters lm] result)"

text \<open>\<^verbatim>\<open>get_local_map\<close> returns the fused map and the ring with its cache fields.\<close>

definition get_local_map ::
  "('m, 'p, 'l) lib \<Rightarrow> ('m, 'p) local_map \<Rightarrow> error + ('p feature_frame \<times> ('m, 'p) local_map)" where
  "get_local_map L lm =
     (if local_map_dirty lm then
        (case update_local_map L lm of
           Inl e \<Rightarrow> Inl e
         | Inr m \<Rightarrow> Inr (m, lm\<lparr>cached_map := m, local_map_dirty := False\<rparr>))
      else Inr (cached_map lm, lm))"

section \<open>Registration\<close>

text \<open>
  \<^verbatim>\<open>remove_degenerate\<close>: the first loop looks for an eigenvalue whose real part is
  below the threshold and stops at the first one; the second performs
  \<^verbatim>\<open>ATA(i, i) += 0.5\<close> on the \<^verbatim>\<open>float\<close> matrix for \<open>i\<close> from 0 to 5.
\<close>

fun find_degenerate :: "(nat \<Rightarrow> complex) \<Rightarrow> real \<Rightarrow> nat list \<Rightarrow> bool" where
  "find_degenerate eigen threshold [] = False"
| "find_degenerate eigen threshold (i # is) =
     (if Re (eigen i) < threshold then True else find_degenerate eigen threshold is)"

definition bump_diagonal ::
  "('m, 'p, 'l) lib \<Rightarrow> nat \<Rightarrow> (nat \<Rightarrow> nat \<Rightarrow> real) \<Rightarrow> (nat \<Rightarrow> nat \<Rightarrow> real)" where
  "bump_diagonal L i ATA = ATA(i := (ATA i)(i := float_add L (ATA i i) 0.5))"

definition remove_degenerate ::
  "('m, 'p, 'l) lib \<Rightarrow> (nat \<Rightarrow> nat \<Rightarrow> real) \<Rightarrow> real \<Rightarrow> (nat \<Rightarrow> nat \<Rightarrow> real)" where
  "remove_degenerate L ATA threshold =
     (let eigen = eigenvalues L ATA;
          is_degenerate = find_degenerate eigen threshold [0 ..< 6]
      in if is_degenerate then fold (bump_diagonal L) [0 ..< 6] ATA else ATA)"

text \<open>
  \<^verbatim>\<open>N.A.topRows(N.top).transpose() * N.A.topRows(N.top)\<close> and the same product with
  \<^verbatim>\<open>N.b\<close>: sums over the first \<^verbatim>\<open>N.top\<close> rows.
\<close>

definition normal_ATA :: "normal \<Rightarrow> nat \<Rightarrow> nat \<Rightarrow> real" where
  "normal_ATA N = (\<lambda>r c. \<Sum>k \<leftarrow> [0 ..< n_top N]. n_A N k r * n_A N k c)"

definition normal_ATb :: "normal \<Rightarrow> nat \<Rightarrow> real" where
  "normal_ATb N = (\<lambda>r. \<Sum>k \<leftarrow> [0 ..< n_top N]. n_A N k r * n_b N k)"

definition add_delta :: "Transform \<Rightarrow> (nat \<Rightarrow> real) \<Rightarrow> Transform" where
  "add_delta initial delta =
     \<lparr>t_x = t_x initial + delta 0, t_y = t_y initial + delta 1, t_z = t_z initial + delta 2,
      t_roll = t_roll initial + delta 3, t_pitch = t_pitch initial + delta 4,
      t_yaw = t_yaw initial + delta 5\<rparr>"

text \<open>
  The loop of \<^verbatim>\<open>LM2\<close>: \<open>n\<close> iterations are left, \<open>i\<close> is the loop counter,
  \<open>initial\<close> the current estimate.
\<close>

fun LM2_loop ::
  "('m, 'p, 'l) lib \<Rightarrow> 'p feature_frame \<Rightarrow> 'p feature_frame \<Rightarrow> real \<Rightarrow> nat \<Rightarrow> nat
     \<Rightarrow> Transform \<Rightarrow> Transform" where
  "LM2_loop L this_features local_maps degenerate_threshold 0 i initial = initial"
| "LM2_loop L this_features local_maps degenerate_threshold (Suc n) i initial =
     (let N = Ab L this_features local_maps initial
      in if n_top N = 0 then initial
         else
           let ATA0 = normal_ATA N;
               ATA = (if i = 0 then remove_degenerate L ATA0 degenerate_threshold else ATA0);
               ATb = normal_ATb N;
               delta = qr_solve L ATA ATb;
               tr' = add_delta initial delta;
               delta_xyz = p2 L (delta 0) + p2 L (delta 1) + p2 L (delta 2);
               delta_rpy = p2 L (delta 3) + p2 L (delta 4) + p2 L (delta 5)
           in if delta_xyz < 1 / 10 ^ 7 \<and> delta_rpy < 1 / 10 ^ 7 then tr'
              else LM2_loop L this_features local_maps degenerate_threshold n (Suc i) tr')"

definition LM2 ::
  "('m, 'p, 'l) lib \<Rightarrow> 'p feature_frame \<Rightarrow> 'p feature_frame \<Rightarrow> real \<Rightarrow> Transform
     \<Rightarrow> Transform" where
  "LM2 L this_features local_maps degenerate_threshold initial =
     LM2_loop L this_features local_maps degenerate_threshold 30 0 initial"

text \<open>
  The pieces of one iteration, for following a run of the loop: the step that iteration
  \<open>i\<close> solves for at the estimate \<open>t\<close> (lines 46 to 54), the convergence test on a step
  (lines 64 to 69), and the estimate with which iteration \<open>k\<close> starts when no earlier
  iteration has returned.
\<close>

definition LM2_step ::
  "('m, 'p, 'l) lib \<Rightarrow> 'p feature_frame \<Rightarrow> 'p feature_frame \<Rightarrow> real \<Rightarrow> nat \<Rightarrow> Transform
     \<Rightarrow> nat \<Rightarrow> real" where
  "LM2_step L this_features fused degenerate_threshold i t =
     (let N = Ab L this_features fused t;
          ATA0 = normal_ATA N;
          ATA = (if i = 0 then remove_degenerate L ATA0 degenerate_threshold else ATA0)
      in qr_solve L ATA (normal_ATb N))"

definition LM2_converged :: "('m, 'p, 'l) lib \<Rightarrow> (nat \<Rightarrow> real) \<Rightarrow> bool" where
  "LM2_converged L delta =
     (p2 L (delta 0) + p2 L (delta 1) + p2 L (delta 2) < 1 / 10 ^ 7 \<and>
      p2 L (delta 3) + p2 L (delta 4) + p2 L (delta 5) < 1 / 10 ^ 7)"


text \<open>
  The ridge in the words of its description: 0.5 added to each of the six diagonal
  elements, nothing else changed; and the test that triggers it.
\<close>

definition diagonal_plus_half ::
  "('m, 'p, 'l) lib \<Rightarrow> (nat \<Rightarrow> nat \<Rightarrow> real) \<Rightarrow> nat \<Rightarrow> nat \<Rightarrow> real" where
  "diagonal_plus_half L M = (\<lambda>r c. if r = c \<and> r < 6 then float_add L (M r c) (1 / 2) else M r c)"

definition eigenvalue_below ::
  "('m, 'p, 'l) lib \<Rightarrow> (nat \<Rightarrow> nat \<Rightarrow> real) \<Rightarrow> real \<Rightarrow> bool" where
  "eigenvalue_below L M threshold = (\<exists>j. j < 6 \<and> Re (eigenvalues L M j) < threshold)"

section \<open>Odometry\<close>

definition cloud_below :: "'p list option \<Rightarrow> nat \<Rightarrow> bool" where
  "cloud_below c n = (case c of None \<Rightarrow> False | Some pts \<Rightarrow> length pts < n)"

definition feature_ok :: "'p feature_objects \<Rightarrow> bool" where
  "feature_ok object =
     (if cloud_below (line_features object) 10 then False
      else if cloud_below (plane_features object) 100 then False
      else if cloud_below (non_features object) 100 then False
      else True)"

record visual_odom_v2_config =
  cfg_degenerate_threshold :: real
  key_frame_distance_x :: real
  key_frame_distance_y :: real
  key_frame_distance_z :: real
  key_frame_distance_roll :: real
  key_frame_distance_pitch :: real
  key_frame_distance_yaw :: real
  loop_loss :: real
  loop_reset :: int
  loop_initial_load :: int
  enable_loop :: bool

definition default_config :: visual_odom_v2_config where
  "default_config =
     \<lparr>cfg_degenerate_threshold = 10,
      key_frame_distance_x = 0.5, key_frame_distance_y = 0.5, key_frame_distance_z = 0.1,
      key_frame_distance_roll = 0.02, key_frame_distance_pitch = 0.02,
      key_frame_distance_yaw = 0.02,
      loop_loss = 0.05, loop_reset = 5, loop_initial_load = 100, enable_loop = True\<rparr>"

text \<open>\<^verbatim>\<open>nav_msgs::Path\<close> and the line-list marker, as far as the code writes them.\<close>

record Path =
  path_stamp :: nat
  poses :: "PoseStamped list"

record Marker =
  marker_stamp :: nat
  points :: "(real \<times> real \<times> real) list"

record ('m, 'p, 'l) visual_odom_v2 =
  local_maps :: "('m, 'p) local_map"
  next_initial_guess :: Transform
  degenerate_threshold :: real
  loop :: 'l
  config :: visual_odom_v2_config
  loop_markers :: Marker
  final_path :: Path

definition to_ros_pose :: "('m, 'p, 'l) lib \<Rightarrow> 'm \<Rightarrow> Pose" where
  "to_ros_pose L transform =
     \<lparr>position = (m_coeff L transform 0 3, m_coeff L transform 1 3, m_coeff L transform 2 3),
      orientation = m_quaternion L transform\<rparr>"

definition zero_transform :: Transform where
  "zero_transform = \<lparr>t_x = 0, t_y = 0, t_z = 0, t_roll = 0, t_pitch = 0, t_yaw = 0\<rparr>"

text \<open>
  \<^verbatim>\<open>update_current_frame\<close> returns \<^verbatim>\<open>fail(message)\<close> as \<open>Inl\<close> and
  \<^verbatim>\<open>ok(Tr)\<close> as \<open>Inr\<close>, next to the state it leaves.
\<close>

definition update_current_frame ::
  "('m, 'p, 'l) lib \<Rightarrow> ('m, 'p, 'l) visual_odom_v2 \<Rightarrow> 'p feature_frame
     \<Rightarrow> error + ((string + Transform) \<times> ('m, 'p, 'l) visual_odom_v2)" where
  "update_current_frame L st this_features =
     (if \<not> feature_ok (velodyne_feature this_features)
      then Inr (Inl ''velodyne not enough features'', st)
      else if \<not> feature_ok (livox_feature this_features)
      then Inr (Inl ''livox not enough features'', st)
      else if empty_lm (local_maps st)
      then Inr (Inr zero_transform,
                st\<lparr>local_maps := push (local_maps st) this_features (m_identity L)\<rparr>)
      else
        (case get_local_map L (local_maps st) of
           Inl e \<Rightarrow> Inl e
         | Inr (M, lm') \<Rightarrow>
             let Tr = LM2 L this_features M (degenerate_threshold st) (next_initial_guess st)
             in Inr (Inr Tr, st\<lparr>local_maps := lm', next_initial_guess := Tr\<rparr>)))"

text \<open>The three loops of \<^verbatim>\<open>loop_detection\<close>.\<close>

fun set_all ::
  "('m, 'p, 'l) lib \<Rightarrow> 'l \<Rightarrow> ('m, 'p) local_map \<Rightarrow> nat list \<Rightarrow> error + ('m, 'p) local_map" where
  "set_all L l lm [] = Inr lm"
| "set_all L l lm (i # is) =
     (case set_lm lm i (loop_btr L l i) of
        Inl e \<Rightarrow> Inl e
      | Inr lm' \<Rightarrow> set_all L l lm' is)"

definition rewrite_pose ::
  "('m, 'p, 'l) lib \<Rightarrow> 'l \<Rightarrow> nat \<Rightarrow> PoseStamped list \<Rightarrow> PoseStamped list" where
  "rewrite_pose L l i ps = ps[i := (ps ! i)\<lparr>pose := to_ros_pose L (loop_tr L l i)\<rparr>]"

definition marker_point :: "('m, 'p, 'l) lib \<Rightarrow> 'l \<Rightarrow> nat \<Rightarrow> real \<times> real \<times> real" where
  "marker_point L l k =
     (m_coeff L (loop_tr L l k) 0 3, m_coeff L (loop_tr L l k) 1 3, m_coeff L (loop_tr L l k) 2 3)"

fun marker_points ::
  "('m, 'p, 'l) lib \<Rightarrow> 'l \<Rightarrow> (nat \<times> nat) list \<Rightarrow> (real \<times> real \<times> real) list
     \<Rightarrow> (real \<times> real \<times> real) list" where
  "marker_points L l [] pts = pts"
| "marker_points L l ((source_frame_id, target_frame_id) # rs) pts =
     marker_points L l rs
       (pts @ [marker_point L l source_frame_id, marker_point L l target_frame_id])"

definition loop_detection ::
  "('m, 'p, 'l) lib \<Rightarrow> ('m, 'p, 'l) visual_odom_v2 \<Rightarrow> 'p list \<Rightarrow> 'p feature_objects \<Rightarrow> 'm
     \<Rightarrow> error + ('m \<times> ('m, 'p, 'l) visual_odom_v2)" where
  "loop_detection L st cloud frame transform =
     (let (result, l) = loop_run L (loop st) cloud frame transform;
          st1 = st\<lparr>loop := l\<rparr>
      in if result = 0 then Inr (transform, st1)
         else
           (case set_all L l (local_maps st1) [1 ..< Suc (size_lm (local_maps st1))] of
              Inl e \<Rightarrow> Inl e
            | Inr lm' \<Rightarrow>
                Inr (loop_btr L l 1,
                     st1\<lparr>local_maps := lm',
                         final_path := (final_path st1)
                           \<lparr>poses := fold (rewrite_pose L l)
                                       [result ..< length (poses (final_path st1))]
                                       (poses (final_path st1))\<rparr>,
                         loop_markers := (loop_markers st1)
                           \<lparr>points := marker_points L l (loop_edges L l) []\<rparr>\<rparr>)))"

definition below_thresholds :: "visual_odom_v2_config \<Rightarrow> Transform \<Rightarrow> bool" where
  "below_thresholds c Tr =
     (\<bar>t_x Tr\<bar> < key_frame_distance_x c \<and>
      \<bar>t_y Tr\<bar> < key_frame_distance_y c \<and>
      \<bar>t_z Tr\<bar> < key_frame_distance_z c \<and>
      \<bar>t_roll Tr\<bar> < key_frame_distance_roll c \<and>
      \<bar>t_pitch Tr\<bar> < key_frame_distance_pitch c \<and>
      \<bar>t_yaw Tr\<bar> < key_frame_distance_yaw c)"

definition mapping ::
  "('m, 'p, 'l) lib \<Rightarrow> ('m, 'p, 'l) visual_odom_v2 \<Rightarrow> 'p list \<Rightarrow> 'p feature_frame \<Rightarrow> nat
     \<Rightarrow> error + ('m option \<times> ('m, 'p, 'l) visual_odom_v2)" where
  "mapping L st velodyne_cloud frame time =
     (case update_current_frame L st frame of
        Inl e \<Rightarrow> Inl e
      | Inr (Inl msg, st1) \<Rightarrow> Inr (None, st1)
      | Inr (Inr Tr, st1) \<Rightarrow>
          (case tr (local_maps st1) of
             Inl e \<Rightarrow> Inl e
           | Inr T \<Rightarrow>
               let M = m_mul L T (to_eigen L Tr)
               in if \<not> empty_lm (local_maps st1) \<and> below_thresholds (config st1) Tr
                  then Inr (Some M, st1)
                  else
                    let pose' = \<lparr>stamp = time, pose = to_ros_pose L M\<rparr>;
                        st2 = st1\<lparr>local_maps := push (local_maps st1) frame M,
                                  final_path := \<lparr>path_stamp = time,
                                                 poses = poses (final_path st1) @ [pose']\<rparr>,
                                  loop_markers := (loop_markers st1)\<lparr>marker_stamp := time\<rparr>\<rparr>
                    in if enable_loop (config st2)
                       then (case loop_detection L st2 velodyne_cloud
                                    (velodyne_feature frame) M of
                               Inl e \<Rightarrow> Inl e
                             | Inr (M', st3) \<Rightarrow> Inr (Some M', st3))
                       else Inr (Some M, st2)))"

text \<open>
  The odometry as \<^verbatim>\<open>visual_odom_v2(nh)\<close> constructs it. The source gives
  \<^verbatim>\<open>next_initial_guess\<close> and the slot matrices no initial value: \<open>t0\<close> and \<open>g\<close> stand
  for what they hold; \<open>l0\<close> is the loop module after the constructor has configured it.
\<close>

definition new_odom ::
  "visual_odom_v2_config \<Rightarrow> Transform \<Rightarrow> 'm \<Rightarrow> 'l \<Rightarrow> ('m, 'p, 'l) visual_odom_v2" where
  "new_odom c t0 g l0 =
     \<lparr>local_maps = new_local_map g, next_initial_guess = t0, degenerate_threshold = 10,
      loop = l0, config = c,
      loop_markers = \<lparr>marker_stamp = 0, points = []\<rparr>,
      final_path = \<lparr>path_stamp = 0, poses = []\<rparr>\<rparr>"

section \<open>Feature stage\<close>

record 'p synced_message =
  msg_time :: nat
  velodyne :: "'p list"
  livox :: "'p list"

datatype severity = FATAL | WARN | INFO

record 'm feature_thread =
  use_livox :: bool
  use_velodyne :: bool
  livox_transform :: 'm
  ros_log :: "(severity \<times> string) list"

text \<open>
  The extrinsic parameter vector is read with \<^verbatim>\<open>livox_cab[0]\<close> to
  \<^verbatim>\<open>livox_cab[5]\<close>, unchecked: a vector with fewer than six entries is an
  out-of-bounds read.
\<close>

definition read_extrinsic :: "real list \<Rightarrow> error + Transform" where
  "read_extrinsic livox_cab =
     (if length livox_cab < 6 then Inl OutOfBounds
      else Inr \<lparr>t_x = livox_cab ! 0, t_y = livox_cab ! 1, t_z = livox_cab ! 2,
                t_roll = livox_cab ! 3, t_pitch = livox_cab ! 4, t_yaw = livox_cab ! 5\<rparr>)"

text \<open>
  The constructor of \<^verbatim>\<open>feature_thread\<close>, from the three parameters it reads.
  \<^verbatim>\<open>ROS_FATAL\<close> writes a log line and returns.
\<close>

definition feature_thread_ctor ::
  "('m, 'p, 'l) lib \<Rightarrow> bool \<Rightarrow> bool \<Rightarrow> real list \<Rightarrow> error + 'm feature_thread" where
  "feature_thread_ctor L p_use_livox p_use_velodyne livox_cab =
     (let both_off = (\<not> p_use_livox \<and> \<not> p_use_velodyne);
          log1 = (if both_off
                  then [(FATAL, ''use_livox and use_velodyne cannot be both false'')] else []);
          ul = (if both_off then True else p_use_livox);
          uv = (if both_off then True else p_use_velodyne);
          log2 = (if length livox_cab \<noteq> 6
                  then [(FATAL, ''livox_transform must have 6 elements, %zd got'')] else [])
      in case read_extrinsic livox_cab of
           Inl e \<Rightarrow> Inl e
         | Inr t \<Rightarrow>
             Inr \<lparr>use_livox = ul, use_velodyne = uv,
                  livox_transform = m_inverse L (to_eigen L t),
                  ros_log = log1 @ log2 @ [(INFO, ''livox_transform: %f %f %f %f %f %f'')]\<rparr>)"

record 'm mapping_thread =
  mt_livox_transform :: 'm
  mt_degenerate_threshold :: real
  mt_log :: "(severity \<times> string) list"

definition mapping_thread_ctor ::
  "('m, 'p, 'l) lib \<Rightarrow> real list \<Rightarrow> real \<Rightarrow> error + 'm mapping_thread" where
  "mapping_thread_ctor L livox_cab p_degenerate_threshold =
     (let log1 = (if length livox_cab \<noteq> 6
                  then [(FATAL, ''livox_transform must have 6 elements, %zd got'')] else [])
      in case read_extrinsic livox_cab of
           Inl e \<Rightarrow> Inl e
         | Inr t \<Rightarrow>
             Inr \<lparr>mt_livox_transform = m_inverse L (to_eigen L t),
                  mt_degenerate_threshold = p_degenerate_threshold,
                  mt_log = log1 @ [(INFO, ''livox_transform: %f %f %f %f %f %f'')] @
                    (if p_degenerate_threshold < 5
                     then [(WARN, ''degenerate_threshold is too small, %f'')] else [])\<rparr>)"

text \<open>
  The body of the inner loop of \<^verbatim>\<open>__features_thread\<close> for one message:
  \<open>Inr None\<close> is \<^verbatim>\<open>continue\<close> (the frame is dropped), \<open>Inr (Some (msg, frame))\<close> is
  the call of \<^verbatim>\<open>feature_frame_delegate\<close>. The sizes are read through the cloud
  pointers, left to right.
\<close>

definition velodyne_branch ::
  "('m, 'p, 'l) lib \<Rightarrow> 'p synced_message \<Rightarrow> 'p feature_frame \<Rightarrow> error + 'p feature_frame option"
  where
  "velodyne_branch L m frame =
     (let frame1 = frame\<lparr>velodyne_feature := feature_velodyne L (velodyne m)\<rparr>
      in case line_features (velodyne_feature frame1) of
           None \<Rightarrow> Inl NullDeref
         | Some ls \<Rightarrow>
             if length ls < 20 then Inr None
             else (case plane_features (velodyne_feature frame1) of
                     None \<Rightarrow> Inl NullDeref
                   | Some ps \<Rightarrow> if length ps < 100 then Inr None else Inr (Some frame1)))"

definition livox_branch ::
  "('m, 'p, 'l) lib \<Rightarrow> 'm feature_thread \<Rightarrow> 'p synced_message \<Rightarrow> 'p feature_frame
     \<Rightarrow> error + 'p feature_frame option" where
  "livox_branch L ft m frame =
     (let lf = feature_livox L (livox m)
      in case plane_features lf of
           None \<Rightarrow> Inl NullDeref
         | Some ps \<Rightarrow>
             if ps = [] then Inr None
             else (case non_features lf of
                     None \<Rightarrow> Inl NullDeref
                   | Some ns \<Rightarrow>
                       if ns = [] then Inr None
                       else Inr (Some (frame\<lparr>livox_feature :=
                              lf\<lparr>plane_features := Some (pcl_transform L ps (livox_transform ft)),
                                 non_features := Some (pcl_transform L ns (livox_transform ft))\<rparr>\<rparr>))))"

definition process_message ::
  "('m, 'p, 'l) lib \<Rightarrow> 'm feature_thread \<Rightarrow> 'p synced_message
     \<Rightarrow> error + ('p synced_message \<times> 'p feature_frame) option" where
  "process_message L ft m =
     (case (if use_velodyne ft then velodyne_branch L m default_frame
            else Inr (Some default_frame)) of
        Inl e \<Rightarrow> Inl e
      | Inr None \<Rightarrow> Inr None
      | Inr (Some frame1) \<Rightarrow>
          (case (if use_livox ft then livox_branch L ft m frame1 else Inr (Some frame1)) of
             Inl e \<Rightarrow> Inl e
           | Inr None \<Rightarrow> Inr None
           | Inr (Some frame2) \<Rightarrow> Inr (Some (m, frame2))))"

text \<open>
  The inner loop over one acquired batch. \<open>should_stop k\<close> is what the \<open>k\<close>-th test of
  the loop condition reads from the volatile flag. The result is the list of published
  pairs, in order.
\<close>

fun features_batch ::
  "('m, 'p, 'l) lib \<Rightarrow> 'm feature_thread \<Rightarrow> (nat \<Rightarrow> bool) \<Rightarrow> nat \<Rightarrow> 'p synced_message list
     \<Rightarrow> error + ('p synced_message \<times> 'p feature_frame) list" where
  "features_batch L ft should_stop k [] = Inr []"
| "features_batch L ft should_stop k (m # pq) =
     (if should_stop k then Inr []
      else case process_message L ft m of
             Inl e \<Rightarrow> Inl e
           | Inr r \<Rightarrow>
               (case features_batch L ft should_stop (Suc k) pq of
                  Inl e \<Rightarrow> Inl e
                | Inr out \<Rightarrow> Inr ((case r of None \<Rightarrow> [] | Some p \<Rightarrow> [p]) @ out)))"

section \<open>Drivers and a concrete instance\<close>

text \<open>A sequence of pushes into a ring, oldest first.\<close>

fun push_all ::
  "('m, 'p) local_map \<Rightarrow> ('p feature_frame \<times> 'm) list \<Rightarrow> ('m, 'p) local_map" where
  "push_all lm [] = lm"
| "push_all lm ((frame, transform) # ps) = push_all (push lm frame transform) ps"

text \<open>
  The worker of \<^verbatim>\<open>__mapping_thread\<close> calls \<^verbatim>\<open>mapping\<close> on every queued
  \<open>(cloud, frame, time)\<close> in order; only the odometry state is followed here.
\<close>

fun mapping_run ::
  "('m, 'p, 'l) lib \<Rightarrow> ('m, 'p, 'l) visual_odom_v2 \<Rightarrow> ('p list \<times> 'p feature_frame \<times> nat) list
     \<Rightarrow> error + ('m, 'p, 'l) visual_odom_v2" where
  "mapping_run L st [] = Inr st"
| "mapping_run L st ((cloud, frame, time) # fs) =
     (case mapping L st cloud frame time of
        Inl e \<Rightarrow> Inl e
      | Inr (r, st') \<Rightarrow> mapping_run L st' fs)"

text \<open>
  An instance of the parameters on which the definitions can be run: poses are
  translations along one axis (a real number, composed by addition), a point is its
  coordinate on that axis. The kernel pairs the first line point of the observed frame
  with the first line point of the local map, which gives one row \<open>demo_row r\<close> with
  residual \<open>r\<close>; the normal matrix is then diagonal of rank one, the eigenvalues are its
  diagonal entries, and the solver returns the least-norm solution of a diagonal system
  (0 in the directions with a zero diagonal entry). The float addition is exact on the
  values that occur. The loop module is the index it reports.
\<close>

definition demo_concat :: "real feature_objects \<Rightarrow> real feature_objects \<Rightarrow> real feature_objects"
  where
  "demo_concat dst src =
     \<lparr>line_features = (case line_features src of None \<Rightarrow> line_features dst
         | Some pts \<Rightarrow> Some ((case line_features dst of None \<Rightarrow> [] | Some acc \<Rightarrow> acc) @ pts)),
      plane_features = (case plane_features src of None \<Rightarrow> plane_features dst
         | Some pts \<Rightarrow> Some ((case plane_features dst of None \<Rightarrow> [] | Some acc \<Rightarrow> acc) @ pts)),
      non_features = (case non_features src of None \<Rightarrow> non_features dst
         | Some pts \<Rightarrow> Some ((case non_features dst of None \<Rightarrow> [] | Some acc \<Rightarrow> acc) @ pts))\<rparr>"

definition demo_row :: "real \<Rightarrow> normal" where
  "demo_row r =
     \<lparr>n_top = 1, n_A = (\<lambda>k c. if k = 0 \<and> c = 0 then 1 else 0),
      n_b = (\<lambda>k. if k = 0 then r else 0)\<rparr>"

definition demo_Ab :: "real feature_frame \<Rightarrow> real feature_frame \<Rightarrow> Transform \<Rightarrow> normal" where
  "demo_Ab this_features fused initial =
     (case (line_features (velodyne_feature this_features),
            line_features (velodyne_feature fused)) of
        (Some ps, Some qs) \<Rightarrow>
          if ps = [] \<or> qs = [] then \<lparr>n_top = 0, n_A = (\<lambda>k c. 0), n_b = (\<lambda>k. 0)\<rparr>
          else demo_row (hd qs - (hd ps + t_x initial))
      | _ \<Rightarrow> \<lparr>n_top = 0, n_A = (\<lambda>k c. 0), n_b = (\<lambda>k. 0)\<rparr>)"

definition demo_lib :: "(real, real, nat) lib" where
  "demo_lib =
     \<lparr>m_identity = 0, m_mul = (\<lambda>a c. a + c), m_inverse = (\<lambda>a. - a),
      m_coeff = (\<lambda>a r c. if r = c then 1 else if r = 0 \<and> c = 3 then a else 0),
      m_quaternion = (\<lambda>a. (0, 0, 0, 1)),
      to_eigen = t_x,
      transform_point = (\<lambda>a p. a + p),
      concat_objects = demo_concat,
      Ab = demo_Ab,
      eigenvalues = (\<lambda>M i. Complex (M i i) 0),
      qr_solve = (\<lambda>M v i. if M i i = 0 then 0 else v i / M i i),
      p2 = (\<lambda>v. v * v),
      float_add = (\<lambda>a c. a + c),
      feature_velodyne =
        (\<lambda>cloud. \<lparr>line_features = Some cloud, plane_features = Some cloud,
                   non_features = None\<rparr>),
      feature_livox =
        (\<lambda>cloud. \<lparr>line_features = None, plane_features = Some cloud,
                   non_features = Some cloud\<rparr>),
      pcl_transform = (\<lambda>pts a. map (\<lambda>p. a + p) pts),
      loop_run = (\<lambda>l cloud frame transform. (l, l)),
      loop_btr = (\<lambda>l i. - real i),
      loop_tr = (\<lambda>l i. real i),
      loop_edges = (\<lambda>l. [(0, l)])\<rparr>"

text \<open>A frame of the spinning sensor alone: 100 line and 100 plane points at \<open>v\<close>.\<close>

definition demo_frame :: "real \<Rightarrow> real feature_frame" where
  "demo_frame v =
     \<lparr>velodyne_feature = \<lparr>line_features = Some (replicate 100 v),
                           plane_features = Some (replicate 100 v), non_features = None\<rparr>,
      livox_feature = default_objects\<rparr>"

text \<open>Push number \<open>n\<close> of a test sequence: a frame and a pose that carry \<open>n\<close>.\<close>

definition demo_push :: "nat \<Rightarrow> real feature_frame \<times> real" where
  "demo_push n =
     (\<lparr>velodyne_feature = \<lparr>line_features = Some [real n], plane_features = None,
                            non_features = None\<rparr>,
       livox_feature = default_objects\<rparr>, real n)"

text \<open>
  The shape of the ring that the constructor and \<^verbatim>\<open>push\<close> maintain: 20 slots, the
  head inside them, and either a full ring or one filled from slot 0 up to the head.
\<close>

definition ring_ok :: "('m, 'p) local_map \<Rightarrow> bool" where
  "ring_ok lm =
     (length (prev_frames lm) = previous_frame_count \<and>
      length (prev_frame_location lm) = previous_frame_count \<and>
      head lm < previous_frame_count \<and>
      (counters lm = previous_frame_count \<or> counters lm \<le> head lm + 1))"

text \<open>An odometry state with two keyframes and a trajectory of four poses.\<close>

definition demo_odom :: "(real, real, nat) visual_odom_v2" where
  "demo_odom =
     (new_odom default_config zero_transform 0 2)
       \<lparr>local_maps := push_all (new_local_map 0) (map demo_push [1 ..< 3]),
        final_path := \<lparr>path_stamp = 12,
          poses = map (\<lambda>n. \<lparr>stamp = 10 + n, pose = to_ros_pose demo_lib (10 * real n)\<rparr>)
                    [0 ..< 4]\<rparr>\<rparr>"

text \<open>
  The checks of the feature stage in the words of its description: the spinning sensor
  has at least 20 line and 100 plane features, the solid-state sensor has a non-empty
  plane and a non-empty non-feature cloud; only the enabled branches count.
\<close>

definition spin_check :: "('m, 'p, 'l) lib \<Rightarrow> 'p synced_message \<Rightarrow> bool" where
  "spin_check L m =
     ((case line_features (feature_velodyne L (velodyne m)) of
         None \<Rightarrow> False | Some ls \<Rightarrow> 20 \<le> length ls) \<and>
      (case plane_features (feature_velodyne L (velodyne m)) of
         None \<Rightarrow> False | Some ps \<Rightarrow> 100 \<le> length ps))"

definition solid_check :: "('m, 'p, 'l) lib \<Rightarrow> 'p synced_message \<Rightarrow> bool" where
  "solid_check L m =
     ((case plane_features (feature_livox L (livox m)) of
         None \<Rightarrow> False | Some ps \<Rightarrow> ps \<noteq> []) \<and>
      (case non_features (feature_livox L (livox m)) of
         None \<Rightarrow> False | Some ns \<Rightarrow> ns \<noteq> []))"

definition enabled_checks_pass ::
  "('m, 'p, 'l) lib \<Rightarrow> 'm feature_thread \<Rightarrow> 'p synced_message \<Rightarrow> bool" where
  "enabled_checks_pass L ft m =
     ((if use_velodyne ft then spin_check L m else True) \<and>
      (if use_livox ft then solid_check L m else True))"

text \<open>A feature stage with the spinning sensor alone, and a message of \<open>n\<close> points.\<close>

definition demo_thread :: "real feature_thread" where
  "demo_thread = \<lparr>use_livox = False, use_velodyne = True, livox_transform = 0, ros_log = []\<rparr>"

definition demo_message :: "nat \<Rightarrow> nat \<Rightarrow> real synced_message" where
  "demo_message t n = \<lparr>msg_time = t, velodyne = replicate n 1, livox = []\<rparr>"

text \<open>
  A run on the concrete instance: the fresh odometry \<open>demo_st0\<close>; \<open>demo_st1\<close> after the
  first frame; \<open>demo_st2\<close> once the fused map \<open>demo_fused\<close> of that one keyframe has been
  built; \<open>demo_st3\<close> after a frame whose points lie 1.5 lower, which registration places
  at \<open>demo_moved\<close>, passing through \<open>demo_first\<close> after its first iteration.
\<close>

definition demo_st0 :: "(real, real, nat) visual_odom_v2" where
  "demo_st0 = new_odom default_config zero_transform 0 0"

definition demo_st1 :: "(real, real, nat) visual_odom_v2" where
  "demo_st1 = demo_st0\<lparr>local_maps := push (new_local_map 0) (demo_frame 0) 0\<rparr>"

definition demo_fused :: "real feature_frame" where
  "demo_fused =
     \<lparr>velodyne_feature = \<lparr>line_features = Some (replicate 100 0 @ replicate 100 0),
                           plane_features = Some (replicate 100 0 @ replicate 100 0),
                           non_features = None\<rparr>,
      livox_feature = default_objects\<rparr>"

definition demo_st2 :: "(real, real, nat) visual_odom_v2" where
  "demo_st2 = demo_st1\<lparr>local_maps :=
       (local_maps demo_st1)\<lparr>cached_map := demo_fused, local_map_dirty := False\<rparr>\<rparr>"

definition demo_first :: Transform where
  "demo_first = \<lparr>t_x = 1, t_y = 0, t_z = 0, t_roll = 0, t_pitch = 0, t_yaw = 0\<rparr>"

definition demo_moved :: Transform where
  "demo_moved = \<lparr>t_x = 3 / 2, t_y = 0, t_z = 0, t_roll = 0, t_pitch = 0, t_yaw = 0\<rparr>"

definition demo_st3 :: "nat \<Rightarrow> (real, real, nat) visual_odom_v2" where
  "demo_st3 t =
     demo_st2\<lparr>next_initial_guess := demo_moved,
       local_maps := push (local_maps demo_st2) (demo_frame (- (3 / 2))) (3 / 2),
       final_path := \<lparr>path_stamp = t,
         poses = [\<lparr>stamp = t, pose = to_ros_pose demo_lib (3 / 2)\<rparr>]\<rparr>,
       loop_markers := \<lparr>marker_stamp = t, points = []\<rparr>\<rparr>"

text \<open>
  A ring of two keyframes at poses 0 and 1.5; \<open>demo_fused2 v\<close> is its fused map when the
  points of the older keyframe land at \<open>v\<close>; \<open>demo_ring_read\<close> is the ring after
  \<^verbatim>\<open>get_local_map\<close>, \<open>demo_ring_set\<close> after \<^verbatim>\<open>set(2, 5)\<close> on top of that.
\<close>

definition demo_ring :: "(real, real) local_map" where
  "demo_ring =
     push (push (new_local_map 0) (demo_frame 0) 0) (demo_frame (- (3 / 2))) (3 / 2)"

definition demo_fused2 :: "real \<Rightarrow> real feature_frame" where
  "demo_fused2 v =
     \<lparr>velodyne_feature =
        \<lparr>line_features =
           Some (replicate 100 (- (3 / 2)) @ replicate 100 v @ replicate 100 (- (3 / 2))),
         plane_features =
           Some (replicate 100 (- (3 / 2)) @ replicate 100 v @ replicate 100 (- (3 / 2))),
         non_features = None\<rparr>,
      livox_feature = default_objects\<rparr>"

definition demo_ring_read :: "(real, real) local_map" where
  "demo_ring_read = demo_ring\<lparr>cached_map := demo_fused2 (- (3 / 2)), local_map_dirty := False\<rparr>"

definition demo_ring_set :: "(real, real) local_map" where
  "demo_ring_set = demo_ring_read\<lparr>prev_frame_location :=
       (prev_frame_location demo_ring_read)[0 := 5]\<rparr>"

section \<open>Registration: one iteration and the run of the loop\<close>

lemma find_degenerate_iff:
  "find_degenerate eigen threshold is = (\<exists>j. j \<in> set is \<and> Re (eigen j) < threshold)"
  by (induction "is") auto

lemma fold_bump_diagonal:
  "fold (bump_diagonal L) [0 ..< n] M =
     (\<lambda>r c. if r = c \<and> r < n then float_add L (M r c) (1 / 2) else M r c)"
proof (induction n)
  case 0
  then show ?case by simp
next
  case (Suc n)
  have "fold (bump_diagonal L) [0 ..< Suc n] M =
      bump_diagonal L n (fold (bump_diagonal L) [0 ..< n] M)"
    by simp
  also have "\<dots> = bump_diagonal L n
      (\<lambda>r c. if r = c \<and> r < n then float_add L (M r c) (1 / 2) else M r c)"
    by (simp only: Suc)
  also have "\<dots> = (\<lambda>r c. if r = c \<and> r < Suc n then float_add L (M r c) (1 / 2) else M r c)"
    by (auto simp: bump_diagonal_def fun_eq_iff)
  finally show ?case .
qed

lemma remove_degenerate_ridge:
  "remove_degenerate L M threshold =
     (if eigenvalue_below L M threshold then diagonal_plus_half L M else M)"
proof -
  have "find_degenerate (eigenvalues L M) threshold [0 ..< 6] = eigenvalue_below L M threshold"
    unfolding find_degenerate_iff eigenvalue_below_def by auto
  then show ?thesis
    by (simp add: remove_degenerate_def Let_def fold_bump_diagonal[of L 6]
        diagonal_plus_half_def del: upt.simps)
qed

lemma LM2_loop_Suc:
  "LM2_loop L a f thr (Suc n) i t =
     (if n_top (Ab L a f t) = 0 then t
      else if LM2_converged L (LM2_step L a f thr i t) then add_delta t (LM2_step L a f thr i t)
      else LM2_loop L a f thr n (Suc i) (add_delta t (LM2_step L a f thr i t)))"
  by (simp add: Let_def LM2_step_def LM2_converged_def)

lemma LM2_first:
  "LM2 L a c thr t = LM2_loop L a c thr (Suc 29) 0 t"
  by (simp add: LM2_def)


text \<open>
  C6. \<^verbatim>\<open>LM2\<close> starts its loop with counter 0, and an iteration with counter \<open>i\<close> that
  has correspondences solves with this matrix: \<open>ATA\<close> with 0.5 added (by the \<^verbatim>\<open>float\<close>
  addition of the code) to each of its six diagonal elements when \<open>i = 0\<close> and some
  eigenvalue of \<open>ATA\<close> has a real part below the threshold, and \<open>ATA\<close> itself when no
  eigenvalue is below it or \<open>i > 0\<close>. The step goes into the estimate, and the next
  iteration runs with counter \<open>i + 1\<close>.
\<close>

theorem ridge_on_first_iteration_only:
  assumes "n_top (Ab L this_features fused t) \<noteq> 0"
  shows "LM2 L this_features fused threshold t
           = LM2_loop L this_features fused threshold (Suc 29) 0 t
       \<and> LM2_loop L this_features fused threshold (Suc n) i t =
           (let N = Ab L this_features fused t;
                ATA = normal_ATA N;
                M = (if i = 0 \<and> eigenvalue_below L ATA threshold
                     then diagonal_plus_half L ATA else ATA);
                delta = qr_solve L M (normal_ATb N);
                t' = add_delta t delta
            in if LM2_converged L delta then t'
               else LM2_loop L this_features fused threshold n (Suc i) t')"
proof -
  have "LM2_step L this_features fused threshold i t =
      qr_solve L
        (if i = 0 \<and> eigenvalue_below L (normal_ATA (Ab L this_features fused t)) threshold
         then diagonal_plus_half L (normal_ATA (Ab L this_features fused t))
         else normal_ATA (Ab L this_features fused t))
        (normal_ATb (Ab L this_features fused t))"
    by (simp add: LM2_step_def Let_def remove_degenerate_ridge)
  then have "LM2_loop L this_features fused threshold (Suc n) i t =
           (let N = Ab L this_features fused t;
                ATA = normal_ATA N;
                M = (if i = 0 \<and> eigenvalue_below L ATA threshold
                     then diagonal_plus_half L ATA else ATA);
                delta = qr_solve L M (normal_ATb N);
                t' = add_delta t delta
            in if LM2_converged L delta then t'
               else LM2_loop L this_features fused threshold n (Suc i) t')"
    by (subst LM2_loop_Suc) (simp add: assms Let_def del: LM2_loop.simps)
  with LM2_first[of L this_features fused threshold t] show ?thesis
    by (rule_tac conjI)
qed


section \<open>Rejected frames\<close>

text \<open>
  C10. A frame for which \<^verbatim>\<open>feature_ok\<close> fails on either sensor's features leaves the
  whole odometry state as it was (ring, cache, initial guess, loop module, trajectory,
  markers), and \<^verbatim>\<open>mapping\<close> returns no pose.
\<close>

theorem rejected_frame_leaves_state:
  assumes "\<not> feature_ok (velodyne_feature frame) \<or> \<not> feature_ok (livox_feature frame)"
  shows "mapping L st cloud frame time = Inr (None, st)"
  using assms by (auto simp: mapping_def update_current_frame_def)

theorem rejected_frame_leaves_state_witness:
  "\<not> feature_ok (velodyne_feature
        \<lparr>velodyne_feature = \<lparr>line_features = Some [1, 2, 3, 4, 5 :: real],
            plane_features = Some (replicate 100 0), non_features = None\<rparr>,
         livox_feature = default_objects\<rparr>)
   \<and> mapping demo_lib (new_odom default_config zero_transform 0 3) []
        \<lparr>velodyne_feature = \<lparr>line_features = Some [1, 2, 3, 4, 5 :: real],
            plane_features = Some (replicate 100 0), non_features = None\<rparr>,
         livox_feature = default_objects\<rparr> 7
      = Inr (None, new_odom default_config zero_transform 0 3)"
proof -
  have h: "\<not> feature_ok (velodyne_feature
        \<lparr>velodyne_feature = \<lparr>line_features = Some [1, 2, 3, 4, 5 :: real],
            plane_features = Some (replicate 100 0), non_features = None\<rparr>,
         livox_feature = default_objects\<rparr>)"
    by (simp add: feature_ok_def cloud_below_def)
  show ?thesis
    using h rejected_frame_leaves_state [OF disjI1, OF h, of demo_lib
        "new_odom default_config zero_transform 0 3" "[]" 7]
    by simp
qed

section \<open>The ring\<close>

lemma push_all_snoc:
  "push_all lm (ps @ [(frame, transform)]) = push (push_all lm ps) frame transform"
  by (induction lm ps rule: push_all.induct) simp_all

lemma mod20_distinct:
  fixes n k :: nat
  assumes "n < k" "k < n + 20"
  shows "n mod 20 \<noteq> k mod 20"
proof
  assume "n mod 20 = k mod 20"
  then have "k mod 20 = n mod 20" by simp
  moreover have "n \<le> k" using assms(1) by simp
  ultimately have "20 dvd k - n"
    using mod_eq_dvd_iff_nat[of n k 20] by simp
  then have "20 \<le> k - n"
    using assms(1) by (intro dvd_imp_le) simp_all
  with assms(2) show False by simp
qed

lemma ring_slot_wrap:
  fixes k b :: nat
  assumes "1 \<le> b" "b \<le> k" "b \<le> 20" "\<not> k \<le> 20"
  shows "(if b \<le> (k + 19) mod 20 + 1 then (k + 19) mod 20 + 1 - b
      else 20 + (k + 19) mod 20 + 1 - b) = (k - b) mod 20"
proof -
  define h where "h = (k + 19) mod 20"
  define q where "q = (k + 19) div 20"
  have h: "h < 20" unfolding h_def by simp
  have kq: "k + 19 = 20 * q + h"
    unfolding h_def q_def by simp
  show ?thesis
  proof (cases "b \<le> h + 1")
    case True
    have "k - b = 20 * (q - 1) + (h + 1 - b)"
      using kq True assms h by arith
    then have "(k - b) mod 20 = (h + 1 - b) mod 20"
      by (simp only: mod_mult_self4)
    also have "\<dots> = h + 1 - b" using h assms by simp
    finally show ?thesis using True by (simp add: h_def)
  next
    case False
    have "k - b = 20 * (q - 2) + (20 + h + 1 - b)"
      using kq False assms h by arith
    then have "(k - b) mod 20 = (20 + h + 1 - b) mod 20"
      by (simp only: mod_mult_self4)
    also have "\<dots> = 20 + h + 1 - b" using h False by simp
    finally show ?thesis using False by (simp add: h_def)
  qed
qed

lemma ring_head_next:
  fixes k :: nat
  shows "Suc ((k + 19) mod 20) mod 20 = k mod 20"
proof -
  have "Suc ((k + 19) mod 20) mod 20 = Suc (k + 19) mod 20"
    by (rule mod_Suc_eq)
  also have "Suc (k + 19) = k + 20" by simp
  finally show ?thesis by simp
qed

lemma ring_after_push_all:
  assumes "lm = push_all (new_local_map g) ps"
  shows "length (prev_frames lm) = 20 \<and> length (prev_frame_location lm) = 20
       \<and> counters lm = min (length ps) 20
       \<and> head lm = (length ps + 19) mod 20
       \<and> (\<forall>n. n < length ps \<and> length ps \<le> n + 20 \<longrightarrow>
             prev_frames lm ! (n mod 20) = fst (ps ! n)
           \<and> prev_frame_location lm ! (n mod 20) = snd (ps ! n))"
  unfolding assms
proof (induction ps rule: rev_induct)
  case Nil
  show ?case by (simp add: new_local_map_def previous_frame_count_def)
next
  case (snoc x ps)
  obtain frame transform where x: "x = (frame, transform)" by (cases x)
  let ?lm = "push_all (new_local_map g) ps"
  let ?k = "length ps"
  have len: "length (prev_frames ?lm) = 20" "length (prev_frame_location ?lm) = 20"
    and cnt: "counters ?lm = min ?k 20" and hd: "head ?lm = (?k + 19) mod 20"
    using snoc.IH by simp_all
  have old: "\<And>n. n < ?k \<Longrightarrow> ?k \<le> n + 20 \<Longrightarrow>
      prev_frames ?lm ! (n mod 20) = fst (ps ! n)
    \<and> prev_frame_location ?lm ! (n mod 20) = snd (ps ! n)"
    using snoc.IH by blast
  have nh: "Suc (head ?lm) mod 20 = ?k mod 20"
    unfolding hd by (rule ring_head_next)
  have step: "push_all (new_local_map g) (ps @ [x]) = push ?lm frame transform"
    by (simp add: x push_all_snoc)
  have "\<And>n. n < Suc ?k \<Longrightarrow> Suc ?k \<le> n + 20 \<Longrightarrow>
      prev_frames (push ?lm frame transform) ! (n mod 20) = fst ((ps @ [x]) ! n)
    \<and> prev_frame_location (push ?lm frame transform) ! (n mod 20) = snd ((ps @ [x]) ! n)"
  proof -
    fix n assume n: "n < Suc ?k" "Suc ?k \<le> n + 20"
    show "prev_frames (push ?lm frame transform) ! (n mod 20) = fst ((ps @ [x]) ! n)
      \<and> prev_frame_location (push ?lm frame transform) ! (n mod 20) = snd ((ps @ [x]) ! n)"
    proof (cases "n = ?k")
      case True
      then show ?thesis
        by (simp add: push_def Let_def previous_frame_count_def nh len x)
    next
      case False
      with n have lt: "n < ?k" and ge: "?k \<le> n + 20" and gt: "?k < n + 20" by simp_all
      have ne: "n mod 20 \<noteq> ?k mod 20"
        using mod20_distinct[OF lt gt] .
      then have ne': "?k mod 20 \<noteq> n mod 20" by simp
      show ?thesis
        using old[OF lt ge] n lt ne'
        by (simp add: push_def Let_def previous_frame_count_def nh len nth_append)
    qed
  qed
  moreover have "counters (push ?lm frame transform) = min (Suc ?k) 20"
    by (simp add: push_def Let_def previous_frame_count_def cnt)
  moreover have "head (push ?lm frame transform) = (Suc ?k + 19) mod 20"
    unfolding push_def Let_def previous_frame_count_def using nh by simp
  moreover have "length (prev_frames (push ?lm frame transform)) = 20"
    "length (prev_frame_location (push ?lm frame transform)) = 20"
    by (simp_all add: push_def Let_def len)
  ultimately show ?case
    unfolding step by simp
qed

lemma back_slot_ring:
  assumes "counters lm = min k 20" "head lm = (k + 19) mod 20" "1 \<le> b" "b \<le> min k 20"
  shows "back_slot lm b = (k - b) mod 20"
proof -
  have b: "1 \<le> b" "b \<le> k" "b \<le> 20" using assms by simp_all
  show ?thesis
  proof (cases "k \<le> 20")
    case True
    have "k + 19 = 20 + (k - 1)" using b by arith
    then have "(k + 19) mod 20 = (k - 1) mod 20" by (simp only: mod_add_self1)
    also have "\<dots> = k - 1" using True b by simp
    finally have "(k + 19) mod 20 = k - 1" .
    with True b assms show ?thesis by (simp add: back_slot_def)
  next
    case False
    then have c: "counters lm = 20" using assms by simp
    show ?thesis
      unfolding back_slot_def c assms(2) using ring_slot_wrap[OF b(1) b(2) b(3) False]
      by (simp add: add.commute add.left_commute)
  qed
qed

text \<open>
  C5. After \<open>k\<close> pushes into the empty ring the count is \<open>min k 20\<close>; for every
  back-index \<open>b\<close> from 1 to the count, the slot that \<open>b\<close> addresses (1 is the head)
  holds the frame and the transform of push number \<open>k - b + 1\<close>, so walking back from
  the head meets the last \<open>min k 20\<close> pushes, newest first; the head holds the most
  recent push and \<^verbatim>\<open>tr()\<close> returns its transform.
\<close>

theorem ring_after_pushes:
  assumes "lm = push_all (new_local_map g) ps" and "k = length ps"
  shows "counters lm = min k 20
       \<and> (\<forall>b. 1 \<le> b \<and> b \<le> min k 20 \<longrightarrow>
             back_slot lm b < 20
           \<and> prev_frames lm ! back_slot lm b = fst (ps ! (k - b))
           \<and> prev_frame_location lm ! back_slot lm b = snd (ps ! (k - b)))
       \<and> (0 < k \<longrightarrow> head lm = back_slot lm 1 \<and> tr lm = Inr (snd (last ps)))"
proof -
  note R = ring_after_push_all[OF assms(1), folded assms(2)]
  have cnt: "counters lm = min k 20" and hd: "head lm = (k + 19) mod 20"
    and len: "length (prev_frame_location lm) = 20"
    using R by simp_all
  have entries: "\<And>n. n < k \<Longrightarrow> k \<le> n + 20 \<Longrightarrow>
      prev_frames lm ! (n mod 20) = fst (ps ! n)
    \<and> prev_frame_location lm ! (n mod 20) = snd (ps ! n)"
    using R by blast
  have bk: "\<And>b. 1 \<le> b \<Longrightarrow> b \<le> min k 20 \<Longrightarrow>
      back_slot lm b < 20
    \<and> prev_frames lm ! back_slot lm b = fst (ps ! (k - b))
    \<and> prev_frame_location lm ! back_slot lm b = snd (ps ! (k - b))"
  proof -
    fix b assume b: "1 \<le> b" "b \<le> min k 20"
    have s: "back_slot lm b = (k - b) mod 20"
      using back_slot_ring[OF cnt hd b] .
    have "k - b < k" "k \<le> (k - b) + 20" using b by arith+
    from entries[OF this] show "back_slot lm b < 20
      \<and> prev_frames lm ! back_slot lm b = fst (ps ! (k - b))
      \<and> prev_frame_location lm ! back_slot lm b = snd (ps ! (k - b))"
      unfolding s by simp
  qed
  have "head lm = back_slot lm 1 \<and> tr lm = Inr (snd (last ps))" if k: "0 < k"
  proof -
    have one: "(1::nat) \<le> 1" "1 \<le> min k 20" using k by simp_all
    have h1: "back_slot lm 1 = head lm"
      by (simp add: back_slot_def)
    have ne: "ps \<noteq> []" using k assms(2) by auto
    have "prev_frame_location lm ! head lm = snd (ps ! (k - 1))" and "head lm < 20"
      using bk[OF one] unfolding h1 by simp_all
    moreover have "ps ! (k - 1) = last ps"
      using ne assms(2) by (simp add: last_conv_nth)
    ultimately show ?thesis
      using k by (simp add: tr_def cnt len back_slot_def)
  qed
  with cnt bk show ?thesis by blast
qed

theorem ring_after_pushes_witness:
  "counters (push_all (new_local_map 0) (map demo_push [1 ..< 26])) = 20
   \<and> tr (push_all (new_local_map 0) (map demo_push [1 ..< 26])) = Inr 25
   \<and> map (\<lambda>b. prev_frame_location (push_all (new_local_map 0) (map demo_push [1 ..< 26])) !
             back_slot (push_all (new_local_map 0) (map demo_push [1 ..< 26])) b) [1 ..< 21]
      = [25, 24, 23, 22, 21, 20, 19, 18, 17, 16, 15, 14, 13, 12, 11, 10, 9, 8, 7, 6]
   \<and> map (\<lambda>b. line_features (velodyne_feature
             (prev_frames (push_all (new_local_map 0) (map demo_push [1 ..< 26])) !
                back_slot (push_all (new_local_map 0) (map demo_push [1 ..< 26])) b)))
         [1, 2, 20]
      = [Some [25], Some [24], Some [6]]"
  using ring_after_pushes[OF refl refl, of "0::real" "map demo_push [1 ..< 26]"]
  by (simp add: upt_rec[of _ "numeral _"] demo_push_def)

section \<open>Loop closure\<close>

lemma set_lm_Inr:
  assumes "set_lm lm i M = Inr lm'"
  shows "i \<le> counters lm" "back_slot lm i < length (prev_frame_location lm)"
    "lm' = lm\<lparr>prev_frame_location := (prev_frame_location lm)[back_slot lm i := M]\<rparr>"
  using assms by (auto simp: set_lm_def split: if_splits)

lemma back_slot_cong:
  "head lm' = head lm \<Longrightarrow> counters lm' = counters lm \<Longrightarrow> back_slot lm' i = back_slot lm i"
  by (simp add: back_slot_def)

lemma back_slot_inj:
  assumes "1 \<le> i" "i \<le> counters lm" "1 \<le> j" "j \<le> counters lm"
    and "back_slot lm i = back_slot lm j"
  shows "i = j"
  using assms unfolding back_slot_def by (simp split: if_splits; arith)

lemma set_all_effect:
  assumes "set_all L l lm is = Inr lm'" "distinct is" "\<forall>i\<in>set is. 1 \<le> i"
  shows "head lm' = head lm \<and> counters lm' = counters lm \<and> prev_frames lm' = prev_frames lm
    \<and> cached_map lm' = cached_map lm \<and> local_map_dirty lm' = local_map_dirty lm
    \<and> length (prev_frame_location lm') = length (prev_frame_location lm)
    \<and> (\<forall>i\<in>set is. i \<le> counters lm \<and> back_slot lm i < length (prev_frame_location lm)
          \<and> prev_frame_location lm' ! back_slot lm i = loop_btr L l i)
    \<and> (\<forall>s. s \<notin> back_slot lm ` set is \<longrightarrow> prev_frame_location lm' ! s = prev_frame_location lm ! s)"
  using assms
proof (induction "is" arbitrary: lm)
  case Nil
  then show ?case by simp
next
  case (Cons i "is")
  from Cons.prems(1) obtain lm1 where s1: "set_lm lm i (loop_btr L l i) = Inr lm1"
    and rest: "set_all L l lm1 is = Inr lm'"
    by (auto split: sum.splits)
  note f = set_lm_Inr[OF s1]
  have hc: "head lm1 = head lm" "counters lm1 = counters lm" by (simp_all add: f(3))
  have bs: "\<And>j. back_slot lm1 j = back_slot lm j"
    using back_slot_cong[OF hc] .
  have len1: "length (prev_frame_location lm1) = length (prev_frame_location lm)"
    by (simp add: f(3))
  from Cons.prems have d: "distinct is" "\<forall>j\<in>set is. 1 \<le> j" "i \<notin> set is" "1 \<le> i"
    by simp_all
  note IH = Cons.IH[OF rest d(1) d(2), unfolded bs hc len1]
  have notin: "back_slot lm i \<notin> back_slot lm ` set is"
  proof
    assume "back_slot lm i \<in> back_slot lm ` set is"
    then obtain j where j: "j \<in> set is" "back_slot lm i = back_slot lm j" by auto
    have "j \<le> counters lm" "1 \<le> j" using IH j(1) d(2) by auto
    from back_slot_inj[OF d(4) f(1) this(2) this(1) j(2)] j(1) d(3) show False by simp
  qed
  have "prev_frame_location lm' ! back_slot lm i = prev_frame_location lm1 ! back_slot lm i"
    using IH notin by blast
  also have "\<dots> = loop_btr L l i"
    using f(2) by (simp add: f(3))
  finally have new: "prev_frame_location lm' ! back_slot lm i = loop_btr L l i" .
  have other: "prev_frame_location lm' ! s = prev_frame_location lm ! s"
    if "s \<notin> back_slot lm ` set (i # is)" for s
  proof -
    from that have a: "s \<noteq> back_slot lm i" "s \<notin> back_slot lm ` set is" by auto
    have "prev_frame_location lm' ! s = prev_frame_location lm1 ! s" using IH a(2) by blast
    also have "\<dots> = prev_frame_location lm ! s" using a(1) by (simp add: f(3))
    finally show ?thesis .
  qed
  have fields: "prev_frames lm1 = prev_frames lm" "cached_map lm1 = cached_map lm"
    "local_map_dirty lm1 = local_map_dirty lm" by (simp_all add: f(3))
  show ?case
    using IH new other f(1) f(2) fields by auto
qed

lemma set_all_succeeds:
  assumes "ring_ok lm" "\<forall>i\<in>set is. 1 \<le> i \<and> i \<le> counters lm"
  shows "\<exists>lm'. set_all L l lm is = Inr lm'"
  using assms
proof (induction "is" arbitrary: lm)
  case Nil
  then show ?case by simp
next
  case (Cons i "is")
  have i: "1 \<le> i" "i \<le> counters lm" using Cons.prems(2) by simp_all
  have "back_slot lm i < length (prev_frame_location lm)"
    using Cons.prems(1) i unfolding ring_ok_def back_slot_def previous_frame_count_def
    by (simp split: if_splits; arith)
  then obtain lm1 where s1: "set_lm lm i (loop_btr L l i) = Inr lm1"
    using i by (simp add: set_lm_def)
  note f = set_lm_Inr[OF s1]
  have "ring_ok lm1" using Cons.prems(1) by (simp add: ring_ok_def f(3))
  moreover have "\<forall>j\<in>set is. 1 \<le> j \<and> j \<le> counters lm1"
    using Cons.prems(2) by (simp add: f(3))
  ultimately obtain lm' where "set_all L l lm1 is = Inr lm'"
    using Cons.IH by blast
  then show ?case using s1 by simp
qed

lemma fold_rewrite_pose_length:
  "length (fold (rewrite_pose L l) js ps) = length ps"
  by (induction js arbitrary: ps) (simp_all add: rewrite_pose_def)

lemma rewrite_pose_nth:
  "i < length qs \<Longrightarrow> rewrite_pose L l i qs ! j =
     (if j = i then (qs ! i)\<lparr>pose := to_ros_pose L (loop_tr L l i)\<rparr> else qs ! j)"
  by (simp add: rewrite_pose_def)

lemma fold_rewrite_pose_nth:
  assumes "j < length ps" "b \<le> length ps"
  shows "fold (rewrite_pose L l) [a ..< b] ps ! j =
     (if a \<le> j \<and> j < b then (ps ! j)\<lparr>pose := to_ros_pose L (loop_tr L l j)\<rparr> else ps ! j)"
  using assms
proof (induction b arbitrary: j)
  case 0
  then show ?case by simp
next
  case (Suc b)
  show ?case
  proof (cases "a \<le> b")
    case False
    then show ?thesis by auto
  next
    case True
    let ?qs = "fold (rewrite_pose L l) [a ..< b] ps"
    have b: "b < length ps" "b \<le> length ps" using Suc.prems by simp_all
    have len: "length ?qs = length ps" by (rule fold_rewrite_pose_length)
    have step: "fold (rewrite_pose L l) [a ..< Suc b] ps = rewrite_pose L l b ?qs"
      using True by simp
    have qb: "?qs ! b = ps ! b" using Suc.IH[OF b(1) b(2)] by simp
    have qj: "?qs ! j =
       (if a \<le> j \<and> j < b then (ps ! j)\<lparr>pose := to_ros_pose L (loop_tr L l j)\<rparr> else ps ! j)"
      using Suc.IH[OF Suc.prems(1) b(2)] .
    show ?thesis
    proof (cases "j = b")
      case True
      with \<open>a \<le> b\<close> show ?thesis
        using b(1) by (simp add: step rewrite_pose_nth len qb)
    next
      case False
      then show ?thesis
        using b(1) Suc.prems(1) by (simp add: step rewrite_pose_nth len qj)
    qed
  qed
qed

text \<open>
  C9. On a well-formed ring \<^verbatim>\<open>loop_detection\<close> returns. When the loop module reports
  \<open>k > 0\<close>: the ring is the result of \<^verbatim>\<open>set(i, btr(i))\<close> for \<open>i\<close> from 1 to the count,
  so that the slot of every such back-index holds \<open>btr i\<close>, with head, count and frames
  as before; every trajectory entry at an index \<open>j \<ge> k\<close> has its pose replaced by that
  of \<open>tr j\<close> and the entries below \<open>k\<close> are as before; the result is \<open>btr 1\<close>. When it
  reports 0, ring, trajectory and markers are unchanged and the input transform is
  returned.
\<close>

theorem loop_detection_effect:
  assumes "loop_run L (loop st) cloud frame transform = (k, l)"
    and "ring_ok (local_maps st)"
  shows "\<exists>M' st'. loop_detection L st cloud frame transform = Inr (M', st')
     \<and> loop st' = l
     \<and> head (local_maps st') = head (local_maps st)
     \<and> counters (local_maps st') = counters (local_maps st)
     \<and> prev_frames (local_maps st') = prev_frames (local_maps st)
     \<and> length (poses (final_path st')) = length (poses (final_path st))
     \<and> (if k = 0
         then M' = transform \<and> local_maps st' = local_maps st
            \<and> final_path st' = final_path st \<and> loop_markers st' = loop_markers st
         else M' = loop_btr L l 1
            \<and> set_all L l (local_maps st) [1 ..< Suc (counters (local_maps st))]
                = Inr (local_maps st')
            \<and> (\<forall>i. 1 \<le> i \<and> i \<le> counters (local_maps st) \<longrightarrow>
                  prev_frame_location (local_maps st') ! back_slot (local_maps st) i
                    = loop_btr L l i)
            \<and> (\<forall>j. j < length (poses (final_path st)) \<longrightarrow>
                  poses (final_path st') ! j =
                    (if k \<le> j
                     then (poses (final_path st) ! j)\<lparr>pose := to_ros_pose L (loop_tr L l j)\<rparr>
                     else poses (final_path st) ! j)))"
proof (cases "k = 0")
  case True
  then show ?thesis using assms(1) by (simp add: loop_detection_def)
next
  case False
  let ?lm = "local_maps st"
  let ?is = "[1 ..< Suc (counters ?lm)]"
  have rng: "\<forall>i\<in>set ?is. 1 \<le> i \<and> i \<le> counters ?lm" by auto
  obtain lm' where sa: "set_all L l ?lm ?is = Inr lm'"
    using set_all_succeeds[OF assms(2) rng, of L l] by blast
  have "distinct ?is" "\<forall>i\<in>set ?is. 1 \<le> i" by auto
  note E = set_all_effect[OF sa this]
  let ?st' = "st\<lparr>loop := l, local_maps := lm',
      final_path := (final_path st)
        \<lparr>poses := fold (rewrite_pose L l) [k ..< length (poses (final_path st))]
                    (poses (final_path st))\<rparr>,
      loop_markers := (loop_markers st)\<lparr>points := marker_points L l (loop_edges L l) []\<rparr>\<rparr>"
  have res: "loop_detection L st cloud frame transform = Inr (loop_btr L l 1, ?st')"
    using assms(1) False sa by (simp add: loop_detection_def size_lm_def Let_def del: upt_Suc)
  have slots: "\<forall>i. 1 \<le> i \<and> i \<le> counters ?lm \<longrightarrow>
      prev_frame_location lm' ! back_slot ?lm i = loop_btr L l i"
    using E by auto
  have traj: "\<forall>j. j < length (poses (final_path st)) \<longrightarrow>
      fold (rewrite_pose L l) [k ..< length (poses (final_path st))] (poses (final_path st)) ! j =
        (if k \<le> j then (poses (final_path st) ! j)\<lparr>pose := to_ros_pose L (loop_tr L l j)\<rparr>
         else poses (final_path st) ! j)"
    by (simp add: fold_rewrite_pose_nth)
  show ?thesis
    unfolding res using False E sa slots traj
    by (simp add: fold_rewrite_pose_length del: upt_Suc)
qed

theorem loop_detection_effect_witness:
  "loop_run demo_lib (loop demo_odom) [] default_objects 7 = (2, 2)
   \<and> ring_ok (local_maps demo_odom)
   \<and> (\<exists>M' st'. loop_detection demo_lib demo_odom [] default_objects 7 = Inr (M', st')
        \<and> M' = - 1
        \<and> counters (local_maps st') = 2
        \<and> map (\<lambda>i. prev_frame_location (local_maps demo_odom) ! i) [0, 1] = [1, 2]
        \<and> prev_frame_location (local_maps st') ! back_slot (local_maps demo_odom) 1 = - 1
        \<and> prev_frame_location (local_maps st') ! back_slot (local_maps demo_odom) 2 = - 2
        \<and> map (\<lambda>p. fst (position (pose p))) (poses (final_path demo_odom)) = [0, 10, 20, 30]
        \<and> poses (final_path st') ! 1 = poses (final_path demo_odom) ! 1
        \<and> fst (position (pose (poses (final_path st') ! 2))) = 2
        \<and> fst (position (pose (poses (final_path st') ! 3))) = 3)"
proof -
  have h1: "loop_run demo_lib (loop demo_odom) [] default_objects 7 = (2, 2)"
    by (simp add: demo_lib_def demo_odom_def new_odom_def)
  have h2: "ring_ok (local_maps demo_odom)"
    by (simp add: ring_ok_def demo_odom_def new_odom_def new_local_map_def push_def
        previous_frame_count_def demo_push_def upt_rec[of _ "numeral _"])
  have c: "counters (local_maps demo_odom) = 2"
    by (simp add: demo_odom_def new_odom_def new_local_map_def push_def
        previous_frame_count_def demo_push_def upt_rec[of _ "numeral _"])
  have t: "map (\<lambda>i. prev_frame_location (local_maps demo_odom) ! i) [0, 1] = [1, 2]"
    by (simp add: demo_odom_def new_odom_def new_local_map_def push_def
        previous_frame_count_def demo_push_def upt_rec[of _ "numeral _"])
  have p: "poses (final_path demo_odom) =
      map (\<lambda>n. \<lparr>stamp = 10 + n, pose = to_ros_pose demo_lib (10 * real n)\<rparr>) [0 ..< 4]"
    by (simp add: demo_odom_def)
  have b: "loop_btr demo_lib 2 = (\<lambda>i. - real i)" "loop_tr demo_lib 2 = (\<lambda>i. real i)"
    by (simp_all add: demo_lib_def)
  have q: "\<And>a. fst (position (to_ros_pose demo_lib a)) = a"
    by (simp add: to_ros_pose_def demo_lib_def)
  from loop_detection_effect[OF h1 h2] obtain M' st' where
    r: "loop_detection demo_lib demo_odom [] default_objects 7 = Inr (M', st')"
    and c': "counters (local_maps st') = counters (local_maps demo_odom)"
    and m: "M' = loop_btr demo_lib 2 1"
    and s: "\<forall>i. 1 \<le> i \<and> i \<le> counters (local_maps demo_odom) \<longrightarrow>
          prev_frame_location (local_maps st') ! back_slot (local_maps demo_odom) i
            = loop_btr demo_lib 2 i"
    and j: "\<forall>j. j < length (poses (final_path demo_odom)) \<longrightarrow>
          poses (final_path st') ! j =
            (if 2 \<le> j
             then (poses (final_path demo_odom) ! j)
                    \<lparr>pose := to_ros_pose demo_lib (loop_tr demo_lib 2 j)\<rparr>
             else poses (final_path demo_odom) ! j)"
    by auto
  have s1: "prev_frame_location (local_maps st') ! back_slot (local_maps demo_odom) 1 = - 1"
    using s[rule_format, of 1] c b by simp
  have s2: "prev_frame_location (local_maps st') ! back_slot (local_maps demo_odom) 2 = - 2"
    using s[rule_format, of 2] c b by simp
  have len: "length (poses (final_path demo_odom)) = 4" by (simp add: p)
  have j1: "poses (final_path st') ! 1 = poses (final_path demo_odom) ! 1"
    using j[rule_format, of 1] len by simp
  have j2: "fst (position (pose (poses (final_path st') ! 2))) = 2"
    using j[rule_format, of 2] len b by (simp add: q)
  have j3: "fst (position (pose (poses (final_path st') ! 3))) = 3"
    using j[rule_format, of 3] len b by (simp add: q)
  have p0: "map (\<lambda>p. fst (position (pose p))) (poses (final_path demo_odom)) = [0, 10, 20, 30]"
    by (simp add: p q upt_rec[of _ "numeral _"])
  show ?thesis
    using h1 h2 r m b c c' t s1 s2 j1 j2 j3 p0 by simp
qed

section \<open>Feature stage: what is published\<close>

lemma process_message_checks:
  assumes "\<forall>c. line_features (feature_velodyne L c) \<noteq> None
             \<and> plane_features (feature_velodyne L c) \<noteq> None"
    and "\<forall>c. plane_features (feature_livox L c) \<noteq> None
             \<and> non_features (feature_livox L c) \<noteq> None"
  shows "\<exists>r. process_message L ft m = Inr r
     \<and> (if enabled_checks_pass L ft m then \<exists>frame. r = Some (m, frame) else r = None)"
proof -
  obtain ls ps where v: "line_features (feature_velodyne L (velodyne m)) = Some ls"
    "plane_features (feature_velodyne L (velodyne m)) = Some ps"
    using assms(1) by (metis option.exhaust)
  obtain lp ln where l: "plane_features (feature_livox L (livox m)) = Some lp"
    "non_features (feature_livox L (livox m)) = Some ln"
    using assms(2) by (metis option.exhaust)
  have vb: "velodyne_branch L m default_frame =
      Inr (if 20 \<le> length ls \<and> 100 \<le> length ps
           then Some (default_frame\<lparr>velodyne_feature := feature_velodyne L (velodyne m)\<rparr>)
           else None)"
    by (simp add: velodyne_branch_def v Let_def)
  have lb: "\<And>frame. livox_branch L ft m frame =
      Inr (if lp \<noteq> [] \<and> ln \<noteq> []
           then Some (frame\<lparr>livox_feature := (feature_livox L (livox m))
                  \<lparr>plane_features := Some (pcl_transform L lp (livox_transform ft)),
                   non_features := Some (pcl_transform L ln (livox_transform ft))\<rparr>\<rparr>)
           else None)"
    by (simp add: livox_branch_def l Let_def)
  show ?thesis
    by (simp add: process_message_def vb lb enabled_checks_pass_def spin_check_def
        solid_check_def v l)
qed

text \<open>
  C8. When the kernels fill the clouds they are responsible for and the stage is not
  stopped, the inner loop works through the whole batch and publishes, in order, exactly
  the messages for which every enabled branch passes its check, each with the frame
  computed for it; a message that fails a check is dropped and the next one is processed.
\<close>

theorem feature_stage_publishes_iff_checks_pass:
  assumes "\<forall>c. line_features (feature_velodyne L c) \<noteq> None
             \<and> plane_features (feature_velodyne L c) \<noteq> None"
    and "\<forall>c. plane_features (feature_livox L c) \<noteq> None
             \<and> non_features (feature_livox L c) \<noteq> None"
    and "\<forall>n. \<not> should_stop n"
  shows "\<exists>out. features_batch L ft should_stop k pq = Inr out
     \<and> map fst out = filter (enabled_checks_pass L ft) pq
     \<and> (\<forall>p \<in> set out. process_message L ft (fst p) = Inr (Some p))"
proof (induction pq arbitrary: k)
  case Nil
  show ?case by simp
next
  case (Cons m pq)
  obtain out where out: "features_batch L ft should_stop (Suc k) pq = Inr out"
    "map fst out = filter (enabled_checks_pass L ft) pq"
    "\<forall>p \<in> set out. process_message L ft (fst p) = Inr (Some p)"
    using Cons.IH[of "Suc k"] by blast
  obtain r where r: "process_message L ft m = Inr r"
    "if enabled_checks_pass L ft m then \<exists>frame. r = Some (m, frame) else r = None"
    using process_message_checks[OF assms(1) assms(2), of ft m] by blast
  have ns: "\<not> should_stop k" using assms(3) by simp
  show ?case
  proof (cases "enabled_checks_pass L ft m")
    case True
    with r obtain frame where f: "r = Some (m, frame)" by auto
    show ?thesis
      using ns True out r(1) by (simp add: f)
  next
    case False
    with r have "r = None" by simp
    then show ?thesis
      using ns False out r(1) by simp
  qed
qed

theorem feature_stage_publishes_iff_checks_pass_witness:
  "(\<forall>c. line_features (feature_velodyne demo_lib c) \<noteq> None
        \<and> plane_features (feature_velodyne demo_lib c) \<noteq> None)
   \<and> (\<forall>c. plane_features (feature_livox demo_lib c) \<noteq> None
        \<and> non_features (feature_livox demo_lib c) \<noteq> None)
   \<and> (\<exists>out. features_batch demo_lib demo_thread (\<lambda>n. False) 0
          [demo_message 1 100, demo_message 2 19, demo_message 3 120] = Inr out
        \<and> map fst out = [demo_message 1 100, demo_message 3 120])"
proof -
  have h1: "\<forall>c. line_features (feature_velodyne demo_lib c) \<noteq> None
        \<and> plane_features (feature_velodyne demo_lib c) \<noteq> None"
    by (simp add: demo_lib_def)
  have h2: "\<forall>c. plane_features (feature_livox demo_lib c) \<noteq> None
        \<and> non_features (feature_livox demo_lib c) \<noteq> None"
    by (simp add: demo_lib_def)
  have h3: "\<forall>n. \<not> (\<lambda>n::nat. False) n" by simp
  have c: "enabled_checks_pass demo_lib demo_thread (demo_message 1 100)"
    "\<not> enabled_checks_pass demo_lib demo_thread (demo_message 2 19)"
    "enabled_checks_pass demo_lib demo_thread (demo_message 3 120)"
    by (simp_all add: enabled_checks_pass_def spin_check_def demo_thread_def demo_lib_def
        demo_message_def)
  from feature_stage_publishes_iff_checks_pass[OF h1 h2 h3, of demo_thread 0
        "[demo_message 1 100, demo_message 2 19, demo_message 3 120]"]
  obtain out where o: "features_batch demo_lib demo_thread (\<lambda>n. False) 0
          [demo_message 1 100, demo_message 2 19, demo_message 3 120] = Inr out"
    "map fst out = filter (enabled_checks_pass demo_lib demo_thread)
          [demo_message 1 100, demo_message 2 19, demo_message 3 120]"
    by blast
  have m: "map fst out = [demo_message 1 100, demo_message 3 120]"
    unfolding o(2) using c by simp
  have ex: "\<exists>out. features_batch demo_lib demo_thread (\<lambda>n. False) 0
          [demo_message 1 100, demo_message 2 19, demo_message 3 120] = Inr out
        \<and> map fst out = [demo_message 1 100, demo_message 3 120]"
    by (rule exI[of _ out], rule conjI, rule o(1), rule m)
  show ?thesis
    by (rule conjI, rule h1, rule conjI, rule h2, rule ex)
qed

section \<open>The keyframe gate and the trajectory\<close>

lemma get_local_map_ring:
  assumes "get_local_map L lm = Inr (M, lm')"
  shows "head lm' = head lm" "counters lm' = counters lm" "prev_frames lm' = prev_frames lm"
    "prev_frame_location lm' = prev_frame_location lm"
  using assms by (auto simp: get_local_map_def split: if_splits sum.splits)

lemma update_current_frame_nonempty:
  assumes "\<not> empty_lm (local_maps st)"
    and "update_current_frame L st frame = Inr (Inr Tr, st1)"
  shows "head (local_maps st1) = head (local_maps st)"
    "counters (local_maps st1) = counters (local_maps st)"
    "prev_frames (local_maps st1) = prev_frames (local_maps st)"
    "prev_frame_location (local_maps st1) = prev_frame_location (local_maps st)"
    "final_path st1 = final_path st" "config st1 = config st"
    "loop_markers st1 = loop_markers st" "loop st1 = loop st"
    "next_initial_guess st1 = Tr"
  using assms
  by (auto simp: update_current_frame_def Let_def split: if_splits sum.splits
      dest: get_local_map_ring)

lemma loop_detection_sizes:
  assumes "loop_detection L st cloud fo M = Inr (M', st')"
  shows "counters (local_maps st') = counters (local_maps st)
       \<and> length (poses (final_path st')) = length (poses (final_path st))"
proof -
  obtain k l where kl: "loop_run L (loop st) cloud fo M = (k, l)"
    by (cases "loop_run L (loop st) cloud fo M")
  show ?thesis
  proof (cases "k = 0")
    case True
    with assms kl show ?thesis
      by (auto simp: loop_detection_def)
  next
    case False
    let ?is = "[1 ..< Suc (counters (local_maps st))]"
    from assms kl False obtain lm' where sa: "set_all L l (local_maps st) ?is = Inr lm'"
      and st': "st' = st\<lparr>loop := l, local_maps := lm',
        final_path := (final_path st)
          \<lparr>poses := fold (rewrite_pose L l) [k ..< length (poses (final_path st))]
                      (poses (final_path st))\<rparr>,
        loop_markers := (loop_markers st)\<lparr>points := marker_points L l (loop_edges L l) []\<rparr>\<rparr>"
      by (auto simp: loop_detection_def size_lm_def Let_def simp del: upt_Suc split: sum.splits)
    have "distinct ?is" "\<forall>i\<in>set ?is. 1 \<le> i" by auto
    note E = set_all_effect[OF sa this]
    show ?thesis
      using E by (simp add: st' fold_rewrite_pose_length)
  qed
qed

lemma mapping_after_update:
  assumes "update_current_frame L st frame = Inr (Inr Tr, st1)"
    and "mapping L st cloud frame time = Inr (res, st')"
  shows "\<exists>T. tr (local_maps st1) = Inr T
     \<and> (if below_thresholds (config st1) Tr
         then res = Some (m_mul L T (to_eigen L Tr)) \<and> st' = st1
         else res \<noteq> None
            \<and> counters (local_maps st') =
                (if counters (local_maps st1) < 20 then counters (local_maps st1) + 1
                 else counters (local_maps st1))
            \<and> length (poses (final_path st')) = length (poses (final_path st1)) + 1)"
proof -
  from assms(2) obtain T where T: "tr (local_maps st1) = Inr T"
    by (auto simp: mapping_def assms(1) split: sum.splits)
  then have ne1: "\<not> empty_lm (local_maps st1)"
    by (auto simp: tr_def empty_lm_def split: if_splits)
  let ?M = "m_mul L T (to_eigen L Tr)"
  let ?st2 = "st1\<lparr>local_maps := push (local_maps st1) frame ?M,
      final_path := \<lparr>path_stamp = time,
        poses = poses (final_path st1) @ [\<lparr>stamp = time, pose = to_ros_pose L ?M\<rparr>]\<rparr>,
      loop_markers := (loop_markers st1)\<lparr>marker_stamp := time\<rparr>\<rparr>"
  have c2: "counters (local_maps ?st2) =
      (if counters (local_maps st1) < 20 then counters (local_maps st1) + 1
       else counters (local_maps st1))"
    by (simp add: push_def Let_def previous_frame_count_def)
  have p2: "length (poses (final_path ?st2)) = length (poses (final_path st1)) + 1"
    by simp
  show ?thesis
  proof (cases "below_thresholds (config st1) Tr")
    case True
    then have "res = Some ?M \<and> st' = st1"
      using assms(2) ne1 by (simp add: mapping_def assms(1) T Let_def)
    with True T show ?thesis by simp
  next
    case nb: False
    show ?thesis
    proof (cases "enable_loop (config st1)")
      case False
      then have "res = Some ?M \<and> st' = ?st2"
        using assms(2) nb by (simp add: mapping_def assms(1) T Let_def)
      then show ?thesis using c2 p2 nb T by simp
    next
      case True
      then obtain M' where
        ld: "loop_detection L ?st2 cloud (velodyne_feature frame) ?M = Inr (M', st')"
        and r: "res = Some M'"
        using assms(2) nb
        by (auto simp: mapping_def assms(1) T Let_def split: sum.splits)
      from loop_detection_sizes[OF ld] show ?thesis
        using c2 p2 r nb T by simp
    qed
  qed
qed

text \<open>
  C4, for a ring that is not empty. For a frame that arrives at a non-empty ring of at most 20 entries and is
  accepted with registration result \<open>Tr\<close>: when all six components of \<open>Tr\<close> are below
  their thresholds in absolute value, \<^verbatim>\<open>mapping\<close> returns \<open>tr() * to_eigen Tr\<close> and head,
  count, frames, slot transforms and trajectory are as before; when some component is at
  or above its threshold, a pose is returned, the count is \<open>min 20 (count + 1)\<close> and the
  trajectory is one entry longer.
\<close>

theorem keyframe_gate:
  assumes "\<not> empty_lm (local_maps st)"
    and "counters (local_maps st) \<le> 20"
    and "update_current_frame L st frame = Inr (Inr Tr, st1)"
    and "mapping L st cloud frame time = Inr (res, st')"
  shows "(below_thresholds (config st) Tr \<longrightarrow>
            (\<exists>T. tr (local_maps st) = Inr T \<and> res = Some (m_mul L T (to_eigen L Tr)))
          \<and> head (local_maps st') = head (local_maps st)
          \<and> counters (local_maps st') = counters (local_maps st)
          \<and> prev_frames (local_maps st') = prev_frames (local_maps st)
          \<and> prev_frame_location (local_maps st') = prev_frame_location (local_maps st)
          \<and> final_path st' = final_path st)
       \<and> (key_frame_distance_x (config st) \<le> \<bar>t_x Tr\<bar>
          \<or> key_frame_distance_y (config st) \<le> \<bar>t_y Tr\<bar>
          \<or> key_frame_distance_z (config st) \<le> \<bar>t_z Tr\<bar>
          \<or> key_frame_distance_roll (config st) \<le> \<bar>t_roll Tr\<bar>
          \<or> key_frame_distance_pitch (config st) \<le> \<bar>t_pitch Tr\<bar>
          \<or> key_frame_distance_yaw (config st) \<le> \<bar>t_yaw Tr\<bar> \<longrightarrow>
            res \<noteq> None
          \<and> counters (local_maps st') = min 20 (counters (local_maps st) + 1)
          \<and> length (poses (final_path st')) = length (poses (final_path st)) + 1)"
proof -
  note U = update_current_frame_nonempty[OF assms(1) assms(3)]
  have trs: "tr (local_maps st1) = tr (local_maps st)"
    by (simp add: tr_def U)
  from mapping_after_update[OF assms(3) assms(4)] obtain T where
    T: "tr (local_maps st) = Inr T"
    and E: "if below_thresholds (config st) Tr
         then res = Some (m_mul L T (to_eigen L Tr)) \<and> st' = st1
         else res \<noteq> None
            \<and> counters (local_maps st') =
                (if counters (local_maps st) < 20 then counters (local_maps st) + 1
                 else counters (local_maps st))
            \<and> length (poses (final_path st')) = length (poses (final_path st)) + 1"
    unfolding trs U by blast
  have small: "(\<exists>T. tr (local_maps st) = Inr T \<and> res = Some (m_mul L T (to_eigen L Tr)))
      \<and> head (local_maps st') = head (local_maps st)
      \<and> counters (local_maps st') = counters (local_maps st)
      \<and> prev_frames (local_maps st') = prev_frames (local_maps st)
      \<and> prev_frame_location (local_maps st') = prev_frame_location (local_maps st)
      \<and> final_path st' = final_path st"
    if "below_thresholds (config st) Tr"
    using E that T U by simp
  have big: "res \<noteq> None
      \<and> counters (local_maps st') = min 20 (counters (local_maps st) + 1)
      \<and> length (poses (final_path st')) = length (poses (final_path st)) + 1"
    if "\<not> below_thresholds (config st) Tr"
    using E that assms(2) by (simp add: min_def)
  have "\<not> below_thresholds (config st) Tr"
    if "key_frame_distance_x (config st) \<le> \<bar>t_x Tr\<bar>
          \<or> key_frame_distance_y (config st) \<le> \<bar>t_y Tr\<bar>
          \<or> key_frame_distance_z (config st) \<le> \<bar>t_z Tr\<bar>
          \<or> key_frame_distance_roll (config st) \<le> \<bar>t_roll Tr\<bar>
          \<or> key_frame_distance_pitch (config st) \<le> \<bar>t_pitch Tr\<bar>
          \<or> key_frame_distance_yaw (config st) \<le> \<bar>t_yaw Tr\<bar>"
    using that unfolding below_thresholds_def by linarith
  with big small show ?thesis by blast
qed

lemma update_leaves_ring_nonempty:
  assumes "update_current_frame L st frame = Inr (Inr Tr, st1)"
  shows "\<not> empty_lm (local_maps st1)"
proof (cases "empty_lm (local_maps st)")
  case True
  then have "st1 = st\<lparr>local_maps := push (local_maps st) frame (m_identity L)\<rparr>"
    using assms by (auto simp: update_current_frame_def split: if_splits)
  then show ?thesis
    using True by (simp add: empty_lm_def push_def Let_def previous_frame_count_def)
next
  case False
  from update_current_frame_nonempty(2)[OF False assms] False show ?thesis
    by (simp add: empty_lm_def)
qed

text \<open>
  C3. What the code does with the first frame, for every kernel and solver: a frame that
  passes \<^verbatim>\<open>feature_ok\<close> and meets the fresh odometry, with thresholds above zero, is
  accepted and returned with the identity pose, the ring holds one keyframe, and the
  trajectory stays empty. (\<^verbatim>\<open>update_current_frame\<close> has pushed the frame, so the test
  \<^verbatim>\<open>!local_maps.empty()\<close> of the gate cannot fail, and the zero motion passes the gate
  before the trajectory is appended to.)
\<close>

theorem first_keyframe_not_in_trajectory:
  assumes "feature_ok (velodyne_feature frame)" and "feature_ok (livox_feature frame)"
    and "below_thresholds c zero_transform"
  shows "\<exists>st'. mapping L (new_odom c t0 g l0) cloud frame time
            = Inr (Some (m_mul L (m_identity L) (to_eigen L zero_transform)), st')
       \<and> counters (local_maps st') = 1
       \<and> poses (final_path st') = []"
  using assms
  by (simp add: mapping_def update_current_frame_def new_odom_def new_local_map_def
      empty_lm_def push_def Let_def previous_frame_count_def tr_def)

section \<open>Runs of the concrete instance\<close>

lemma add_delta_zero: "add_delta t (\<lambda>i. 0) = t"
  by (simp add: add_delta_def)

lemma demo_normal:
  "n_top (demo_row r) = 1"
  "normal_ATA (demo_row r) = (\<lambda>r c. if r = 0 \<and> c = 0 then 1 else 0)"
  "normal_ATb (demo_row r) = (\<lambda>i. if i = 0 then r else 0)"
  by (auto simp add: normal_ATA_def normal_ATb_def demo_row_def fun_eq_iff)

lemma demo_qr_solve: "qr_solve demo_lib M v = (\<lambda>i. v i / M i i)"
  by (auto simp add: demo_lib_def fun_eq_iff)

lemma demo_feature_ok: "feature_ok (velodyne_feature (demo_frame v))"
  "feature_ok (livox_feature (demo_frame v))"
  by (simp_all add: feature_ok_def cloud_below_def demo_frame_def default_objects_def)

lemma demo_update_local_map:
  "update_local_map demo_lib (local_maps demo_st1) = Inr demo_fused"
  by (simp add: update_local_map_def demo_st1_def demo_st0_def new_odom_def push_def
      new_local_map_def previous_frame_count_def Let_def fuse_slot_def transform_cloud_def
      demo_lib_def demo_concat_def demo_frame_def default_objects_def demo_fused_def)

lemma demo_float_add: "float_add demo_lib a c = a + c"
  by (simp add: demo_lib_def)

lemma demo_eigenvalue_below:
  "eigenvalue_below demo_lib (normal_ATA (demo_row r)) 10"
  unfolding eigenvalue_below_def
  by (rule exI[of _ 0]) (simp add: demo_lib_def demo_normal(2))

lemma demo_first_step:
  "qr_solve demo_lib (remove_degenerate demo_lib (normal_ATA (demo_row r)) 10)
      (normal_ATb (demo_row r))
     = (\<lambda>i. if i = 0 then r * 2 / 3 else 0)"
proof -
  have S: "remove_degenerate demo_lib (normal_ATA (demo_row r)) 10 =
      (\<lambda>r c. if r = c \<and> r < 6 then (if r = 0 \<and> c = 0 then 1 else 0) + 1 / 2
              else if r = 0 \<and> c = 0 then 1 else 0)"
  proof -
    have "remove_degenerate demo_lib (normal_ATA (demo_row r)) 10 =
        diagonal_plus_half demo_lib (normal_ATA (demo_row r))"
      by (simp only: remove_degenerate_ridge demo_eigenvalue_below if_True)
    also have "\<dots> = (\<lambda>r c. if r = c \<and> r < 6 then (if r = 0 \<and> c = 0 then 1 else 0) + 1 / 2
              else if r = 0 \<and> c = 0 then 1 else 0)"
      by (simp add: diagonal_plus_half_def demo_normal(2) demo_float_add cong: if_cong)
    finally show ?thesis .
  qed
  show ?thesis
    unfolding demo_qr_solve S demo_normal(3) by (auto simp: fun_eq_iff)
qed

lemma demo_later_step:
  "qr_solve demo_lib (normal_ATA (demo_row r)) (normal_ATb (demo_row r))
     = (\<lambda>i. if i = 0 then r else 0)"
  unfolding demo_qr_solve by (auto simp: demo_normal fun_eq_iff)

lemma demo_p2: "p2 demo_lib v = v * v"
  by (simp add: demo_lib_def)

lemma demo_Ab_frames:
  "Ab demo_lib (demo_frame v) demo_fused t = demo_row (- (v + t_x t))"
  by (simp add: demo_lib_def demo_Ab_def demo_frame_def demo_fused_def)

lemma demo_LM2_static:
  "LM2 demo_lib (demo_frame 0) demo_fused 10 zero_transform = zero_transform"
proof -
  have z: "t_x zero_transform = 0" by (simp add: zero_transform_def)
  show ?thesis
    unfolding LM2_first
    by (subst LM2_loop.simps(2))
      (simp add: demo_Ab_frames z demo_normal(1) demo_first_step demo_p2 Let_def,
       simp add: add_delta_def zero_transform_def)
qed

lemma demo_step1:
  "mapping demo_lib demo_st0 c (demo_frame 0) t = Inr (Some 0, demo_st1)"
  by (simp add: mapping_def update_current_frame_def demo_feature_ok demo_st0_def demo_st1_def
      new_odom_def new_local_map_def empty_lm_def push_def Let_def previous_frame_count_def
      tr_def below_thresholds_def default_config_def zero_transform_def demo_lib_def)

lemma demo_step2:
  "mapping demo_lib demo_st1 c (demo_frame 0) t = Inr (Some 0, demo_st2)"
proof -
  have g: "get_local_map demo_lib (local_maps demo_st1) =
      Inr (demo_fused, (local_maps demo_st1)\<lparr>cached_map := demo_fused, local_map_dirty := False\<rparr>)"
    by (simp add: get_local_map_def demo_update_local_map)
      (simp add: demo_st1_def push_def Let_def)
  have e: "\<not> empty_lm (local_maps demo_st1)" "degenerate_threshold demo_st1 = 10"
    "next_initial_guess demo_st1 = zero_transform" "config demo_st1 = default_config"
    by (simp_all add: demo_st1_def demo_st0_def new_odom_def empty_lm_def push_def Let_def
        new_local_map_def previous_frame_count_def)
  have u: "update_current_frame demo_lib demo_st1 (demo_frame 0) = Inr (Inr zero_transform, demo_st2)"
    by (simp add: update_current_frame_def demo_feature_ok e g demo_LM2_static demo_st2_def)
  have e2: "\<not> empty_lm (local_maps demo_st2)" "config demo_st2 = default_config"
    "tr (local_maps demo_st2) = Inr 0"
    by (simp_all add: demo_st2_def demo_st1_def demo_st0_def new_odom_def empty_lm_def push_def
        Let_def new_local_map_def previous_frame_count_def tr_def)
  have bt: "below_thresholds default_config zero_transform"
    by (simp add: below_thresholds_def default_config_def zero_transform_def)
  show ?thesis
    by (simp add: mapping_def u e2 bt) (simp add: demo_lib_def zero_transform_def)
qed

lemma demo_st2_fields:
  "\<not> empty_lm (local_maps demo_st2)" "config demo_st2 = default_config"
  "tr (local_maps demo_st2) = Inr 0" "degenerate_threshold demo_st2 = 10"
  "next_initial_guess demo_st2 = zero_transform"
  "get_local_map demo_lib (local_maps demo_st2) = Inr (demo_fused, local_maps demo_st2)"
  "counters (local_maps demo_st2) = 1" "poses (final_path demo_st2) = []"
  "loop demo_st2 = 0"
  by (simp_all add: demo_st2_def demo_st1_def demo_st0_def new_odom_def empty_lm_def push_def
      Let_def new_local_map_def previous_frame_count_def tr_def get_local_map_def)

lemma demo_below: "below_thresholds default_config zero_transform"
  "\<not> below_thresholds default_config demo_moved"
  by (simp_all add: below_thresholds_def default_config_def zero_transform_def demo_moved_def)

lemma demo_update_static:
  "update_current_frame demo_lib demo_st2 (demo_frame 0) = Inr (Inr zero_transform, demo_st2)"
  by (simp add: update_current_frame_def demo_feature_ok demo_st2_fields demo_LM2_static)

lemma demo_step3:
  "mapping demo_lib demo_st2 c (demo_frame 0) t = Inr (Some 0, demo_st2)"
  by (simp add: mapping_def demo_update_static demo_st2_fields demo_below)
    (simp add: demo_lib_def zero_transform_def)

lemma demo_static_run:
  "mapping_run demo_lib demo_st2 (map (\<lambda>t. (c, demo_frame 0, t)) ts) = Inr demo_st2"
  by (induction ts) (simp_all add: demo_step3)

lemma demo_LM2_moved:
  "LM2 demo_lib (demo_frame (- (3 / 2))) demo_fused 10 zero_transform = demo_moved"
proof -
  let ?f = "demo_frame (- (3 / 2))"
  let ?t1 = "\<lparr>t_x = 1, t_y = 0, t_z = 0, t_roll = 0, t_pitch = 0, t_yaw = 0\<rparr>"
  have n: "(29::nat) = Suc (Suc 27)" by simp
  have "LM2 demo_lib ?f demo_fused 10 zero_transform =
      LM2_loop demo_lib ?f demo_fused 10 (Suc (Suc 27)) (Suc 0) ?t1"
    unfolding LM2_first n
    by (subst LM2_loop.simps(2))
      (simp add: demo_Ab_frames demo_normal(1) demo_first_step demo_p2 Let_def
         zero_transform_def add_delta_def)
  also have "\<dots> = LM2_loop demo_lib ?f demo_fused 10 (Suc 27) (Suc (Suc 0)) demo_moved"
    by (subst LM2_loop.simps(2))
      (simp add: demo_Ab_frames demo_normal(1) demo_later_step demo_p2 Let_def
         add_delta_def demo_moved_def)
  also have "\<dots> = demo_moved"
    by (subst LM2_loop.simps(2))
      (simp add: demo_Ab_frames demo_normal(1) demo_later_step demo_p2 Let_def
         add_delta_def demo_moved_def)
  finally show ?thesis .
qed

lemma demo_update_moved:
  "update_current_frame demo_lib demo_st2 (demo_frame (- (3 / 2)))
     = Inr (Inr demo_moved, demo_st2\<lparr>next_initial_guess := demo_moved\<rparr>)"
  by (simp add: update_current_frame_def demo_feature_ok demo_st2_fields demo_LM2_moved)

lemma demo_step_key:
  "mapping demo_lib demo_st2 c (demo_frame (- (3 / 2))) t = Inr (Some (3 / 2), demo_st3 t)"
  by (simp add: mapping_def demo_update_moved demo_st2_fields demo_below)
    (simp add: demo_lib_def demo_moved_def loop_detection_def demo_st3_def demo_st2_def
       demo_st1_def demo_st0_def new_odom_def default_config_def Let_def)

lemma demo_static_scene:
  "map_sum id (\<lambda>st. (counters (local_maps st), length (poses (final_path st))))
     (mapping_run demo_lib (new_odom default_config zero_transform 0 0)
        (map (\<lambda>t. ([], demo_frame 0, t)) [1 ..< 51]))
   = Inr (1, 0)"
proof -
  have l: "[1 ..< 51] = 1 # 2 # [3 ..< 51]"
    by (simp add: upt_conv_Cons)
  have "mapping_run demo_lib demo_st0 (map (\<lambda>t. ([], demo_frame 0, t)) [1 ..< 51])
      = Inr demo_st2"
    unfolding l by (simp add: demo_step1 demo_step2 demo_step3)
  then show ?thesis
    by (simp add: demo_st0_def[symmetric] demo_st2_fields)
qed

lemma demo_update_first:
  "update_current_frame demo_lib demo_st0 (demo_frame 0) = Inr (Inr zero_transform, demo_st1)"
  by (simp add: update_current_frame_def demo_feature_ok)
    (simp add: demo_st0_def demo_st1_def new_odom_def new_local_map_def empty_lm_def
      demo_lib_def)

lemma demo_first_fields:
  "config demo_st0 = default_config"
  "counters (local_maps demo_st0) = 0" "counters (local_maps demo_st1) = 1"
  "head (local_maps demo_st0) = 19" "head (local_maps demo_st1) = 0"
  "prev_frames (local_maps demo_st0) ! 0 = default_frame"
  "prev_frames (local_maps demo_st1) ! 0 = demo_frame 0"
  by (simp_all add: demo_st0_def demo_st1_def new_odom_def new_local_map_def push_def Let_def
      previous_frame_count_def)

text \<open>
  The first frame is accepted with \<open>Tr = 0\<close>, below every default threshold, and yet the
  ring changes: head 19 becomes 0, the count 0 becomes 1, slot 0 receives the frame.
\<close>

theorem first_frame_counterexample:
  "update_current_frame demo_lib demo_st0 (demo_frame 0) = Inr (Inr zero_transform, demo_st1)
   \<and> below_thresholds (config demo_st0) zero_transform
   \<and> mapping demo_lib demo_st0 [] (demo_frame 0) 1 = Inr (Some 0, demo_st1)
   \<and> counters (local_maps demo_st0) = 0 \<and> counters (local_maps demo_st1) = 1
   \<and> head (local_maps demo_st0) = 19 \<and> head (local_maps demo_st1) = 0
   \<and> prev_frames (local_maps demo_st0) ! 0 = default_frame
   \<and> prev_frames (local_maps demo_st1) ! 0 = demo_frame 0"
  by (simp add: demo_update_first demo_step1 demo_first_fields demo_below)

theorem keyframe_gate_witness:
  "\<not> empty_lm (local_maps demo_st2) \<and> counters (local_maps demo_st2) \<le> 20
   \<and> update_current_frame demo_lib demo_st2 (demo_frame 0) = Inr (Inr zero_transform, demo_st2)
   \<and> mapping demo_lib demo_st2 [] (demo_frame 0) 5 = Inr (Some 0, demo_st2)
   \<and> below_thresholds (config demo_st2) zero_transform
   \<and> update_current_frame demo_lib demo_st2 (demo_frame (- (3 / 2)))
       = Inr (Inr demo_moved, demo_st2\<lparr>next_initial_guess := demo_moved\<rparr>)
   \<and> mapping demo_lib demo_st2 [] (demo_frame (- (3 / 2))) 6 = Inr (Some (3 / 2), demo_st3 6)
   \<and> key_frame_distance_x (config demo_st2) \<le> \<bar>t_x demo_moved\<bar>
   \<and> counters (local_maps (demo_st3 6)) = 2
   \<and> length (poses (final_path (demo_st3 6))) = 1
   \<and> final_path demo_st2 = \<lparr>path_stamp = 0, poses = []\<rparr>"
proof -
  have h1: "\<not> empty_lm (local_maps demo_st2)" by (rule demo_st2_fields(1))
  have h2: "counters (local_maps demo_st2) \<le> 20" by (simp add: demo_st2_fields)
  have k: "key_frame_distance_x (config demo_st2) \<le> \<bar>t_x demo_moved\<bar>"
    by (simp add: demo_st2_fields default_config_def demo_moved_def)
  have b: "below_thresholds (config demo_st2) zero_transform"
    by (simp add: demo_st2_fields demo_below)
  have f: "final_path demo_st2 = \<lparr>path_stamp = 0, poses = []\<rparr>"
    by (simp add: demo_st2_def demo_st1_def demo_st0_def new_odom_def)
  note A = keyframe_gate[OF h1 h2 demo_update_static demo_step3[of "[]" 5]]
  note B = keyframe_gate[OF h1 h2 demo_update_moved demo_step_key[of "[]" 6]]
  from B k have "counters (local_maps (demo_st3 6)) = min 20 (counters (local_maps demo_st2) + 1)"
    "length (poses (final_path (demo_st3 6))) = length (poses (final_path demo_st2)) + 1"
    by blast+
  then have c: "counters (local_maps (demo_st3 6)) = 2"
    "length (poses (final_path (demo_st3 6))) = 1"
    by (simp_all add: demo_st2_fields)
  from A b have "final_path demo_st2 = final_path demo_st2" by blast
  with h1 h2 k b c f demo_update_static demo_step3[of "[]" 5] demo_update_moved
    demo_step_key[of "[]" 6]
  show ?thesis by simp
qed

section \<open>The cache under retroactive pose edits\<close>

text \<open>
  C1. What \<^verbatim>\<open>set\<close> does to the cache: nothing. After a successful \<^verbatim>\<open>set\<close> on a ring
  whose cache is valid, the cache is still marked valid and \<^verbatim>\<open>get_local_map\<close> returns
  the map fused before the edit; \<^verbatim>\<open>push\<close>, in contrast, marks it dirty.
\<close>

theorem set_leaves_cache_valid:
  assumes "set_lm lm back_index transform = Inr lm'" and "\<not> local_map_dirty lm"
  shows "\<not> local_map_dirty lm' \<and> cached_map lm' = cached_map lm
       \<and> get_local_map L lm' = Inr (cached_map lm, lm')"
  using assms by (auto simp: set_lm_def get_local_map_def split: if_splits)

lemma demo_ring_fused:
  "update_local_map demo_lib demo_ring = Inr (demo_fused2 (- (3 / 2)))"
  "update_local_map demo_lib demo_ring_set = Inr (demo_fused2 (7 / 2))"
  by (simp_all add: update_local_map_def demo_ring_set_def demo_ring_read_def demo_ring_def
      push_def new_local_map_def previous_frame_count_def Let_def fuse_slot_def
      transform_cloud_def demo_lib_def demo_concat_def demo_frame_def default_objects_def
      demo_fused2_def upt_conv_Cons)

theorem set_leaves_cache_valid_witness:
  "get_local_map demo_lib demo_ring = Inr (demo_fused2 (- (3 / 2)), demo_ring_read)
   \<and> \<not> local_map_dirty demo_ring_read
   \<and> set_lm demo_ring_read 2 5 = Inr demo_ring_set
   \<and> get_local_map demo_lib demo_ring_set = Inr (demo_fused2 (- (3 / 2)), demo_ring_set)
   \<and> update_local_map demo_lib demo_ring_set = Inr (demo_fused2 (7 / 2))
   \<and> demo_fused2 (7 / 2) \<noteq> demo_fused2 (- (3 / 2))
   \<and> local_map_dirty (push demo_ring_read (demo_frame 0) 5)"
proof -
  have g: "get_local_map demo_lib demo_ring = Inr (demo_fused2 (- (3 / 2)), demo_ring_read)"
    by (simp add: get_local_map_def demo_ring_fused demo_ring_read_def)
      (simp add: demo_ring_def push_def Let_def)
  have d: "\<not> local_map_dirty demo_ring_read" "cached_map demo_ring_read = demo_fused2 (- (3 / 2))"
    by (simp_all add: demo_ring_read_def)
  have s: "set_lm demo_ring_read 2 5 = Inr demo_ring_set"
    by (simp add: set_lm_def back_slot_def demo_ring_set_def)
      (simp add: demo_ring_read_def demo_ring_def push_def Let_def new_local_map_def
        previous_frame_count_def)
  have n: "demo_fused2 (7 / 2) \<noteq> demo_fused2 (- (3 / 2))"
    by (simp add: demo_fused2_def)
  have p: "local_map_dirty (push demo_ring_read (demo_frame 0) 5)"
    by (simp add: push_def Let_def)
  from set_leaves_cache_valid[OF s d(1), of demo_lib] g d s n p demo_ring_fused(2)
  show ?thesis by simp
qed

section \<open>Startup\<close>

text \<open>
  C2, for the disabled branches. With both sensor branches disabled and an extrinsic list of six entries,
  the constructor of the feature stage does not abort: it logs at fatal level, enables
  both branches and completes.
\<close>

theorem both_disabled_startup_continues:
  assumes "length livox_cab = 6"
  shows "\<exists>ft. feature_thread_ctor L False False livox_cab = Inr ft
     \<and> use_livox ft \<and> use_velodyne ft
     \<and> ros_log ft = [(FATAL, ''use_livox and use_velodyne cannot be both false''),
                     (INFO, ''livox_transform: %f %f %f %f %f %f'')]"
  using assms by (simp add: feature_thread_ctor_def read_extrinsic_def)

theorem both_disabled_startup_continues_witness:
  "length [1, 2, 3, 0, 0, 0 :: real] = 6
   \<and> (\<exists>ft. feature_thread_ctor demo_lib False False [1, 2, 3, 0, 0, 0] = Inr ft
        \<and> use_livox ft \<and> use_velodyne ft
        \<and> ros_log ft = [(FATAL, ''use_livox and use_velodyne cannot be both false''),
                        (INFO, ''livox_transform: %f %f %f %f %f %f'')])"
proof -
  have h: "length [1, 2, 3, 0, 0, 0 :: real] = 6" by simp
  from both_disabled_startup_continues[OF h, of demo_lib] h show ?thesis
    by (rule_tac conjI)
qed

text \<open>
  Both branches disabled, extrinsic \<open>(0, 0, 0, 0, 0, 0)\<close>: the feature stage is constructed,
  with both branches enabled.
\<close>

theorem startup_continues_counterexample:
  "feature_thread_ctor demo_lib False False [0, 0, 0, 0, 0, 0]
     = Inr \<lparr>use_livox = True, use_velodyne = True, livox_transform = 0,
            ros_log = [(FATAL, ''use_livox and use_velodyne cannot be both false''),
                       (INFO, ''livox_transform: %f %f %f %f %f %f'')]\<rparr>"
  by (simp add: feature_thread_ctor_def read_extrinsic_def demo_lib_def)

section \<open>Registration and the first keyframe on the concrete instance\<close>

lemma demo_ridge_step:
  "qr_solve demo_lib (diagonal_plus_half demo_lib (normal_ATA (demo_row r)))
      (normal_ATb (demo_row r))
     = (\<lambda>i. if i = 0 then r * 2 / 3 else 0)"
  using demo_first_step[of r]
  by (simp only: remove_degenerate_ridge demo_eigenvalue_below if_True)

lemma demo_converged:
  "LM2_converged demo_lib (\<lambda>i. if i = 0 then d else 0) = (d * d < 1 / 10 ^ 7)"
  by (simp add: LM2_converged_def demo_p2)

lemma demo_moved_frame_system:
  "Ab demo_lib (demo_frame (- (3 / 2))) demo_fused zero_transform = demo_row (3 / 2)"
  "Ab demo_lib (demo_frame (- (3 / 2))) demo_fused demo_first = demo_row (1 / 2)"
  "Ab demo_lib (demo_frame (- (3 / 2))) demo_fused demo_moved = demo_row 0"
  by (simp_all add: demo_Ab_frames zero_transform_def demo_first_def demo_moved_def)



theorem ridge_on_first_iteration_only_witness:
  "n_top (Ab demo_lib (demo_frame (- (3 / 2))) demo_fused zero_transform) \<noteq> 0
   \<and> eigenvalue_below demo_lib
        (normal_ATA (Ab demo_lib (demo_frame (- (3 / 2))) demo_fused zero_transform)) 10
   \<and> LM2_loop demo_lib (demo_frame (- (3 / 2))) demo_fused 10 (Suc 29) 0 zero_transform
        = LM2_loop demo_lib (demo_frame (- (3 / 2))) demo_fused 10 29 (Suc 0) demo_first
   \<and> n_top (Ab demo_lib (demo_frame (- (3 / 2))) demo_fused demo_first) \<noteq> 0
   \<and> LM2_loop demo_lib (demo_frame (- (3 / 2))) demo_fused 10 (Suc 28) (Suc 0) demo_first
        = LM2_loop demo_lib (demo_frame (- (3 / 2))) demo_fused 10 28 (Suc (Suc 0)) demo_moved"
proof -
  let ?f = "demo_frame (- (3 / 2))"
  have h0: "n_top (Ab demo_lib ?f demo_fused zero_transform) \<noteq> 0"
    and h1: "n_top (Ab demo_lib ?f demo_fused demo_first) \<noteq> 0"
    by (simp_all add: demo_moved_frame_system demo_normal(1))
  have e: "eigenvalue_below demo_lib (normal_ATA (Ab demo_lib ?f demo_fused zero_transform)) 10"
    by (simp only: demo_moved_frame_system demo_eigenvalue_below)
  have a0: "add_delta zero_transform (\<lambda>i. if i = 0 then 3 / 2 * 2 / 3 else 0) = demo_first"
    by (simp add: add_delta_def zero_transform_def demo_first_def)
  have a1: "add_delta demo_first (\<lambda>i. if i = 0 then 1 / 2 else 0) = demo_moved"
    by (simp add: add_delta_def demo_first_def demo_moved_def)
  have s0: "LM2_loop demo_lib ?f demo_fused 10 (Suc 29) 0 zero_transform
        = LM2_loop demo_lib ?f demo_fused 10 29 (Suc 0) demo_first"
    unfolding ridge_on_first_iteration_only[OF h0, of 10 29 0, THEN conjunct2]
    by (simp add: Let_def demo_moved_frame_system demo_eigenvalue_below demo_ridge_step
        demo_converged a0 del: LM2_loop.simps)
  have s1: "LM2_loop demo_lib ?f demo_fused 10 (Suc 28) (Suc 0) demo_first
        = LM2_loop demo_lib ?f demo_fused 10 28 (Suc (Suc 0)) demo_moved"
    unfolding ridge_on_first_iteration_only[OF h1, of 10 28 "Suc 0", THEN conjunct2]
    by (simp add: Let_def demo_moved_frame_system demo_later_step demo_converged a1
        del: LM2_loop.simps)
  show ?thesis
    by (rule conjI, rule h0, rule conjI, rule e, rule conjI, rule s0, rule conjI, rule h1,
        rule s1)
qed



theorem first_keyframe_not_in_trajectory_witness:
  "feature_ok (velodyne_feature (demo_frame 0)) \<and> feature_ok (livox_feature (demo_frame 0))
   \<and> below_thresholds default_config zero_transform
   \<and> (\<exists>st'. mapping demo_lib (new_odom default_config zero_transform 0 0) [] (demo_frame 0) 1
              = Inr (Some 0, st')
          \<and> counters (local_maps st') = 1 \<and> poses (final_path st') = [])
   \<and> map_sum id (\<lambda>st. (counters (local_maps st), length (poses (final_path st))))
        (mapping_run demo_lib (new_odom default_config zero_transform 0 0)
           (map (\<lambda>t. ([], demo_frame 0, t)) [1 ..< 51]))
      = Inr (1, 0)"
proof -
  have v: "m_mul demo_lib (m_identity demo_lib) (to_eigen demo_lib zero_transform) = 0"
    by (simp add: demo_lib_def zero_transform_def)
  have first: "\<exists>st'. mapping demo_lib (new_odom default_config zero_transform 0 0) []
              (demo_frame 0) 1 = Inr (Some 0, st')
          \<and> counters (local_maps st') = 1 \<and> poses (final_path st') = []"
    using first_keyframe_not_in_trajectory[OF demo_feature_ok(1) demo_feature_ok(2)
        demo_below(1), where L = demo_lib and ?t0.0 = zero_transform and g = 0 and ?l0.0 = 0
          and cloud = "[]" and time = 1]
    unfolding v .
  show ?thesis
    by (rule conjI, rule demo_feature_ok(1), rule conjI, rule demo_feature_ok(2),
        rule conjI, rule demo_below(1), rule conjI, rule first, rule demo_static_scene)
qed

end
